theory Spec2Isabelle
  imports Complex_Main "HOL-Library.AList" "HOL-Library.Word"
begin

section \<open>JSON values and the accessors the client calls on them\<close>

text \<open>
  The client (\<^verbatim>\<open>src/youtube/api/client.cpp\<close>) reads every response through jsoncpp's
  \<^verbatim>\<open>Json::Value\<close>. A value is one of null, boolean, number, string, array or object;
  an object is a \<^verbatim>\<open>std::map\<close> from member names to values, kept here as an
  association list that is read with \<open>map_of\<close>; the order of its pairs stands for
  nothing. The numbers of jsoncpp (\<^verbatim>\<open>intValue\<close>, \<^verbatim>\<open>uintValue\<close>,
  \<^verbatim>\<open>realValue\<close>) are \<open>JInt\<close> and \<open>JReal\<close>; no accessor below looks at their
  value.
\<close>

datatype json =
    JNull
  | JBool bool
  | JInt int
  | JReal real
  | JString string
  | JArray "json list"
  | JObject "(string \<times> json) list"

text \<open>
  What the client's code can throw: jsoncpp's failed type assertion
  (\<^verbatim>\<open>JSON_ASSERT\<close>, \<^verbatim>\<open>JSON_FAIL_MESSAGE\<close>) and \<^verbatim>\<open>std::out_of_range\<close> from
  \<^verbatim>\<open>std::string::substr\<close>.
\<close>

datatype error = JsonTypeError | OutOfRange

text \<open>\<^verbatim>\<open>Value::isNull()\<close>.\<close>

definition isNull :: "json \<Rightarrow> bool" where
  "isNull j = (j = JNull)"

text \<open>
  \<^verbatim>\<open>Value::size()\<close>: the number of elements of an array, the number of members of an
  object, and 0 for every other value.
\<close>

fun size_json :: "json \<Rightarrow> nat" where
  "size_json (JArray xs) = length xs"
| "size_json (JObject ms) = length (remdups (map fst ms))"
| "size_json _ = 0"

text \<open>
  \<^verbatim>\<open>const Value& Value::operator[](const char* key) const\<close>: asserts that the value is
  null or an object; gives the member, or null when the value is null or has no such
  member.
\<close>

fun member_const :: "string \<Rightarrow> json \<Rightarrow> error + json" where
  "member_const key JNull = Inr JNull"
| "member_const key (JObject ms) =
     Inr (case map_of ms key of None \<Rightarrow> JNull | Some v \<Rightarrow> v)"
| "member_const key _ = Inl JsonTypeError"

text \<open>
  \<^verbatim>\<open>Value& Value::operator[](const char* key)\<close> on a value that is not const: the same
  assertion, but a null value first becomes an empty object, and a missing member is
  inserted as null. The result is the member together with the value as the access
  leaves it.
\<close>

fun member_ref :: "string \<Rightarrow> json \<Rightarrow> error + (json \<times> json)" where
  "member_ref key JNull = Inr (JNull, JObject [(key, JNull)])"
| "member_ref key (JObject ms) =
     (case map_of ms key of
        None \<Rightarrow> Inr (JNull, JObject (ms @ [(key, JNull)]))
      | Some v \<Rightarrow> Inr (v, JObject ms))"
| "member_ref key _ = Inl JsonTypeError"

text \<open>
  Writing through the reference that \<open>member_ref\<close> returned: the member \<open>key\<close> of
  the object now holds \<open>v\<close>.
\<close>

fun put_member :: "string \<Rightarrow> json \<Rightarrow> json \<Rightarrow> json" where
  "put_member key v (JObject ms) = JObject (AList.update key v ms)"
| "put_member key v j = j"

text \<open>
  \<^verbatim>\<open>Value& Value::operator[](ArrayIndex index)\<close> on a value that is not const: asserts
  that the value is null or an array and gives the element. The classifier's loop calls
  it only with \<open>index < size\<close>, where the array is left as it is; out of range the
  library would insert a null element and return it, and that growth of the array is
  not tracked here.
\<close>

fun at_index :: "nat \<Rightarrow> json \<Rightarrow> error + json" where
  "at_index i (JArray xs) = Inr (if i < length xs then xs ! i else JNull)"
| "at_index i JNull = Inr JNull"
| "at_index i _ = Inl JsonTypeError"

text \<open>
  \<^verbatim>\<open>Value::asString()\<close>, as in the jsoncpp release the scope was built against
  (0.6.0): null is the empty string, a string is itself, a boolean is \<^verbatim>\<open>"true"\<close> or
  \<^verbatim>\<open>"false"\<close>, and every other value fails with "Type is not convertible to
  string". (Later releases print numbers instead of failing; arrays and objects fail in
  every release.)
\<close>

fun asString :: "json \<Rightarrow> error + string" where
  "asString JNull = Inr []"
| "asString (JString s) = Inr s"
| "asString (JBool b) = Inr (if b then ''true'' else ''false'')"
| "asString _ = Inl JsonTypeError"

section \<open>The typed result classifier\<close>

text \<open>
  Lines 55 to 58 of \<^verbatim>\<open>get_typed_list\<close>: the kind of one item, read from
  \<^verbatim>\<open>item["kind"]\<close> and, when that is \<^verbatim>\<open>"youtube#searchResult"\<close>, from
  \<^verbatim>\<open>item["id"]["kind"]\<close>. \<^verbatim>\<open>item\<close> is a local copy that is not const, so the
  accesses may insert null members into it; the second component is the copy as the
  accesses leave it, which is what the entity is then constructed from.
\<close>

definition item_kind :: "json \<Rightarrow> error + (string \<times> json)" where
  "item_kind item =
     (case member_ref ''kind'' item of
        Inl e \<Rightarrow> Inl e
      | Inr (k, item1) \<Rightarrow>
          (case asString k of
             Inl e \<Rightarrow> Inl e
           | Inr kind \<Rightarrow>
               if kind = ''youtube#searchResult'' then
                 (case member_ref ''id'' item1 of
                    Inl e \<Rightarrow> Inl e
                  | Inr (idv, item2) \<Rightarrow>
                      (case member_ref ''kind'' idv of
                         Inl e \<Rightarrow> Inl e
                       | Inr (k2, idv') \<Rightarrow>
                           (case asString k2 of
                              Inl e \<Rightarrow> Inl e
                            | Inr kind2 \<Rightarrow> Inr (kind2, put_member ''id'' idv' item2))))
               else Inr (kind, item1)))"

text \<open>
  The \<^verbatim>\<open>for\<close> loop of \<^verbatim>\<open>get_typed_list\<close>, from \<open>index\<close> on, with the deque
  \<^verbatim>\<open>results\<close> as accumulator. \<open>mk\<close> is the constructor of the entity type
  \<^verbatim>\<open>T\<close> (\<^verbatim>\<open>make_shared<T>(item)\<close>); the entity classes are declared outside this
  file.
\<close>

function typed_loop ::
  "(json \<Rightarrow> 'a) \<Rightarrow> string \<Rightarrow> json \<Rightarrow> nat \<Rightarrow> 'a list \<Rightarrow> error + 'a list" where
  "typed_loop mk flt data index results =
     (if index < size_json data then
        (case at_index index data of
           Inl e \<Rightarrow> Inl e
         | Inr item \<Rightarrow>
             (case item_kind item of
                Inl e \<Rightarrow> Inl e
              | Inr (kind, item') \<Rightarrow>
                  typed_loop mk flt data (index + 1)
                    (if kind = flt then results @ [mk item'] else results)))
      else Inr results)"
  by pat_completeness auto
termination
  by (relation "measure (\<lambda>(mk, flt, data, index, results). size_json data - index)") auto

definition get_typed_list :: "(json \<Rightarrow> 'a) \<Rightarrow> string \<Rightarrow> json \<Rightarrow> error + 'a list" where
  "get_typed_list mk flt rootv =
     (case member_const ''items'' rootv of
        Inl e \<Rightarrow> Inl e
      | Inr data \<Rightarrow> typed_loop mk flt data 0 [])"

section \<open>The success predicate\<close>

text \<open>
  \<^verbatim>\<open>is_successful<bool>\<close>: \<^verbatim>\<open>root\<close> is a const reference, so the members are read
  with the const accessor; \<^verbatim>\<open>||\<close> does not read \<^verbatim>\<open>"kind"\<close> once the id is
  non-empty.
\<close>

definition is_successful :: "json \<Rightarrow> error + bool" where
  "is_successful rootv =
     (if isNull rootv then Inr True
      else
        (case member_const ''id'' rootv of
           Inl e \<Rightarrow> Inl e
         | Inr idv \<Rightarrow>
             (case asString idv of
                Inl e \<Rightarrow> Inl e
              | Inr ids \<Rightarrow>
                  if length ids > 0 then Inr True
                  else
                    (case member_const ''kind'' rootv of
                       Inl e \<Rightarrow> Inl e
                     | Inr kv \<Rightarrow>
                         (case asString kv of
                            Inl e \<Rightarrow> Inl e
                          | Inr ks \<Rightarrow> Inr (length ks > 0))))))"

section \<open>The response pipeline\<close>

text \<open>
  A response as the handlers read it: \<^verbatim>\<open>response.status\<close>, an
  \<^verbatim>\<open>http::Status\<close> that is kept as its numeric code, and \<^verbatim>\<open>response.body\<close>.
\<close>

record Response =
  status :: nat
  body :: string

definition ok :: nat where "ok = 200"
definition created :: nat where "created = 201"
definition no_content :: nat where "no_content = 204"

text \<open>
  What a promise can be fulfilled with: the decoder's value (\<^verbatim>\<open>set_value\<close>) or an
  exception (\<^verbatim>\<open>set_exception\<close>), which is \<^verbatim>\<open>io::gzip_error\<close>,
  \<^verbatim>\<open>std::domain_error\<close> with its message, or the \<^verbatim>\<open>net::Error\<close> handed to the error
  handler.
\<close>

datatype failure = gzip_error | domain_error string | net_error string

datatype 'a fulfilment = set_value 'a | set_exception failure

text \<open>
  What one run of a response handler does: it fulfils the promise, or an exception
  leaves the handler and the promise is not touched.
\<close>

datatype 'a outcome = Fulfilled "'a fulfilment" | Escaped error

text \<open>
  \<^verbatim>\<open>root["error"].asString()\<close> in the handlers: \<^verbatim>\<open>root\<close> is a local value that is
  not const.
\<close>

definition error_message :: "json \<Rightarrow> error + string" where
  "error_message rootv =
     (case member_ref ''error'' rootv of
        Inl e \<Rightarrow> Inl e
      | Inr (v, root') \<Rightarrow> asString v)"

text \<open>
  The two branches that end every response handler (lines 207 to 211, 241 to 247 and
  275 to 281), given whether the status test of the handler found a failure.
  \<open>func\<close> is the decoder passed to \<^verbatim>\<open>async_get\<close>, \<^verbatim>\<open>async_post\<close> or
  \<^verbatim>\<open>async_del\<close>; it may throw.
\<close>

definition settle :: "bool \<Rightarrow> (json \<Rightarrow> error + 'a) \<Rightarrow> json \<Rightarrow> 'a outcome" where
  "settle failed func rootv =
     (if failed then
        (case error_message rootv of
           Inl e \<Rightarrow> Escaped e
         | Inr msg \<Rightarrow> Fulfilled (set_exception (domain_error msg)))
      else
        (case func rootv of
           Inl e \<Rightarrow> Escaped e
         | Inr v \<Rightarrow> Fulfilled (set_value v)))"

text \<open>
  The response handler of \<^verbatim>\<open>async_get\<close> (lines 186 to 212). \<open>gunzip\<close> is boost's
  gzip decompressor run over the whole body, \<open>None\<close> when it throws
  \<^verbatim>\<open>io::gzip_error\<close>. \<open>reader\<close> is \<^verbatim>\<open>Json::Reader::parse\<close> on a fresh null
  \<^verbatim>\<open>root\<close>: the flag it returns and \<^verbatim>\<open>root\<close> as it leaves it; the handler drops
  the flag.
\<close>

definition get_on_response ::
  "(string \<Rightarrow> string option) \<Rightarrow> (string \<Rightarrow> bool \<times> json) \<Rightarrow> (json \<Rightarrow> error + 'a) \<Rightarrow>
   Response \<Rightarrow> 'a outcome" where
  "get_on_response gunzip reader func response =
     (case (if body response \<noteq> [] then gunzip (body response) else Some []) of
        None \<Rightarrow> Fulfilled (set_exception gzip_error)
      | Some decompressed \<Rightarrow>
          (let rootv = snd (reader decompressed)
           in settle (status response \<noteq> ok) func rootv))"

text \<open>The response handler of \<^verbatim>\<open>async_post\<close> (lines 235 to 248).\<close>

definition post_on_response ::
  "(string \<Rightarrow> bool \<times> json) \<Rightarrow> (json \<Rightarrow> error + 'a) \<Rightarrow> Response \<Rightarrow> 'a outcome" where
  "post_on_response reader func response =
     (let rootv = snd (reader (body response))
      in settle (status response \<noteq> created \<and> status response \<noteq> ok \<and>
                 status response \<noteq> no_content) func rootv)"

text \<open>The response handler of \<^verbatim>\<open>async_del\<close> (lines 269 to 282).\<close>

definition del_on_response ::
  "(string \<Rightarrow> bool \<times> json) \<Rightarrow> (json \<Rightarrow> error + 'a) \<Rightarrow> Response \<Rightarrow> 'a outcome" where
  "del_on_response reader func response =
     (let rootv = snd (reader (body response))
      in settle (status response \<noteq> created \<and> status response \<noteq> ok \<and>
                 status response \<noteq> no_content) func rootv)"

text \<open>The error handler of all three (\<^verbatim>\<open>handler.on_error\<close>).\<close>

definition on_error :: "string \<Rightarrow> 'a outcome" where
  "on_error e = Fulfilled (set_exception (net_error e))"

text \<open>
  Modelled from the spec: the JSON reader is jsoncpp's \<^verbatim>\<open>Json::Reader\<close>, whose code is
  not among the sources. The spec says of it that "parser failures are tolerated by
  producing a null/empty JSON value rather than raising". \<open>grammar\<close> gives the
  document that a well-formed text denotes and \<open>None\<close> for every other text; the
  reader reports failure and leaves the fresh \<^verbatim>\<open>root\<close> null on those.
\<close>

definition reader_parse :: "(string \<Rightarrow> json option) \<Rightarrow> string \<Rightarrow> bool \<times> json" where
  "reader_parse grammar document =
     (case grammar document of
        None \<Rightarrow> (False, JNull)
      | Some v \<Rightarrow> (True, v))"

section \<open>Configuration and requests\<close>

text \<open>
  Modelled from the spec: the struct \<^verbatim>\<open>Config\<close> and its default member initialisers
  are declared in \<^verbatim>\<open>config.h\<close>, which is not among the sources. The spec lists its
  fields (API root, API key, user agent, accept header, authenticated flag, access
  token, client id and secret) and says that the resolver, when it returns right after
  \<^verbatim>\<open>config_ = Config()\<close>, "returns an unauthenticated config": a default
  \<^verbatim>\<open>Config\<close> is unauthenticated, with empty credentials. The four string constants
  of \<^verbatim>\<open>config.h\<close> are fields of \<open>Platform\<close>.
\<close>

record Config =
  apiroot :: string
  api_key :: string
  user_agent :: string
  accept :: string
  authenticated :: bool
  access_token :: string
  client_id :: string
  client_secret :: string

text \<open>
  What the client takes from outside its own code: the constants of \<^verbatim>\<open>config.h\<close>
  and \<^verbatim>\<open>Json::StyledWriter::write\<close>, which prints the body of a POST.
\<close>

record Platform =
  default_apiroot :: string
  default_api_key :: string
  default_user_agent :: string
  default_accept :: string
  styled_write :: "json \<Rightarrow> string"

definition Config_default :: "Platform \<Rightarrow> Config" where
  "Config_default p =
     \<lparr> apiroot = default_apiroot p, api_key = default_api_key p,
       user_agent = default_user_agent p, accept = default_accept p,
       authenticated = False, access_token = [], client_id = [], client_secret = [] \<rparr>"

text \<open>
  One entry of \<^verbatim>\<open>OnlineAccountClient::get_service_statuses()\<close>, with the fields the
  client reads.
\<close>

record ServiceStatus =
  service_authenticated :: bool
  status_access_token :: string
  status_client_id :: string
  status_client_secret :: string

text \<open>
  What \<^verbatim>\<open>update_config\<close> reads at one call: the two environment variables
  (\<^verbatim>\<open>getenv\<close> gives a null pointer for an unset one) and the statuses that the
  freshly created account client reports.
\<close>

record Environment =
  YOUTUBE_SCOPE_APIROOT :: "string option"
  YOUTUBE_SCOPE_IGNORE_ACCOUNTS :: bool
  get_service_statuses :: "ServiceStatus list"

text \<open>
  A request handed to the engine. \<^verbatim>\<open>net::make_uri\<close> and
  \<^verbatim>\<open>client_->uri_to_string\<close> belong to the network library; the URI is kept as the
  three parts it is made from. \<open>verb\<close> is the factory of the engine that made the
  request: \<^verbatim>\<open>client_->head\<close> or \<^verbatim>\<open>client_->post\<close>.
\<close>

record Uri =
  host :: string
  path :: "string list"
  query_parameters :: "(string \<times> string) list"

record Configuration =
  uri :: Uri
  header :: "(string \<times> string) list"

datatype verb = HEAD | POST

record Request =
  verb :: verb
  configuration :: Configuration
  payload :: string
  payload_type :: string

text \<open>
  The state of \<^verbatim>\<open>Client::Priv\<close>: \<^verbatim>\<open>config_\<close>, \<^verbatim>\<open>cancelled_\<close>, and the requests
  on which \<^verbatim>\<open>async_execute\<close> has been called, oldest first.
\<close>

record Client =
  config :: Config
  cancelled :: bool
  executing :: "Request list"

text \<open>The constructor of \<^verbatim>\<open>Priv\<close>: \<^verbatim>\<open>cancelled_(false)\<close>.\<close>

definition Priv :: "Platform \<Rightarrow> Client" where
  "Priv p = \<lparr> config = Config_default p, cancelled = False, executing = [] \<rparr>"

text \<open>
  The loop of \<^verbatim>\<open>update_config\<close> (lines 318 to 326): the first authenticated status
  is copied and the loop breaks.
\<close>

fun first_authenticated :: "Config \<Rightarrow> ServiceStatus list \<Rightarrow> Config" where
  "first_authenticated c [] = c"
| "first_authenticated c (s # ss) =
     (if service_authenticated s then
        c\<lparr> authenticated := True, access_token := status_access_token s,
           client_id := status_client_id s, client_secret := status_client_secret s \<rparr>
      else first_authenticated c ss)"

definition update_config :: "Platform \<Rightarrow> Environment \<Rightarrow> Client \<Rightarrow> Client" where
  "update_config p env c =
     (let c1 = c\<lparr> config := Config_default p \<rparr>;
          c2 = (case YOUTUBE_SCOPE_APIROOT env of
                  None \<Rightarrow> c1
                | Some r \<Rightarrow> c1\<lparr> config := (config c1)\<lparr> apiroot := r \<rparr> \<rparr>)
      in if YOUTUBE_SCOPE_IGNORE_ACCOUNTS env then c2
         else c2\<lparr> config := first_authenticated (config c2) (get_service_statuses env) \<rparr>)"

definition net_config ::
  "Platform \<Rightarrow> Environment \<Rightarrow> string list \<Rightarrow> (string \<times> string) list \<Rightarrow> Client \<Rightarrow>
   Configuration \<times> Client" where
  "net_config p env pth parameters c =
     (let c' = update_config p env c;
          hdr = (if authenticated (config c')
                 then [(''Authorization'', ''Bearer '' @ access_token (config c'))]
                 else []);
          complete_parameters =
                (if authenticated (config c') then parameters
                 else parameters @ [(''key'', api_key (config c'))])
      in (\<lparr> uri = \<lparr> host = apiroot (config c'), path = pth,
                     query_parameters = complete_parameters \<rparr>,
            header = hdr \<rparr>, c'))"

text \<open>\<^verbatim>\<open>Priv::get\<close>, \<^verbatim>\<open>Priv::post\<close> and \<^verbatim>\<open>Priv::del\<close>.\<close>

definition get ::
  "Platform \<Rightarrow> Environment \<Rightarrow> string list \<Rightarrow> (string \<times> string) list \<Rightarrow> Client \<Rightarrow> Client" where
  "get p env pth parameters c =
     (case net_config p env pth parameters c of
        (conf, c') \<Rightarrow>
          c'\<lparr> executing := executing c' @
                [\<lparr> verb = HEAD,
                   configuration = conf\<lparr> header := header conf @
                     [(''Accept'', accept (config c')),
                      (''User-Agent'', user_agent (config c') @ '' (gzip)''),
                      (''Accept-Encoding'', ''gzip'')] \<rparr>,
                   payload = [], payload_type = [] \<rparr>] \<rparr>)"

definition post ::
  "Platform \<Rightarrow> Environment \<Rightarrow> string list \<Rightarrow> (string \<times> string) list \<Rightarrow> string \<Rightarrow> string \<Rightarrow>
   Client \<Rightarrow> Client" where
  "post p env pth parameters postmsg content_type c =
     (case net_config p env pth parameters c of
        (conf, c') \<Rightarrow>
          c'\<lparr> executing := executing c' @
                [\<lparr> verb = POST,
                   configuration = conf\<lparr> header := header conf @
                     [(''User-Agent'', user_agent (config c')),
                      (''Content-Type'', content_type)] \<rparr>,
                   payload = postmsg, payload_type = content_type \<rparr>] \<rparr>)"

definition del ::
  "Platform \<Rightarrow> Environment \<Rightarrow> string list \<Rightarrow> (string \<times> string) list \<Rightarrow> Client \<Rightarrow> Client" where
  "del p env pth parameters c =
     (case net_config p env pth parameters c of
        (conf, c') \<Rightarrow>
          c'\<lparr> executing := executing c' @
                [\<lparr> verb = POST,
                   configuration = conf\<lparr> header := header conf @
                     [(''User-Agent'', user_agent (config c')),
                      (''X-HTTP-Method-Override'', ''DELETE'')] \<rparr>,
                   payload = [], payload_type = [] \<rparr>] \<rparr>)"

text \<open>\<^verbatim>\<open>Priv::progress_report\<close>, the progress callback of every handler.\<close>

datatype Next = continue_operation | abort_operation

definition progress_report :: "Client \<Rightarrow> Next" where
  "progress_report c = (if cancelled c then abort_operation else continue_operation)"

section \<open>The public operations\<close>

text \<open>\<^verbatim>\<open>std::to_string\<close> on an \<^verbatim>\<open>unsigned int\<close> and on an \<^verbatim>\<open>int\<close>.\<close>

function decimal :: "nat \<Rightarrow> string" where
  "decimal n =
     (if n < 10 then [char_of (48 + n)]
      else decimal (n div 10) @ [char_of (48 + n mod 10)])"
  by pat_completeness auto
termination
  by (relation "measure id") auto

definition to_string_unsigned :: "32 word \<Rightarrow> string" where
  "to_string_unsigned w = decimal (unat w)"

definition to_string_int :: "32 word \<Rightarrow> string" where
  "to_string_int w =
     (if sint w < 0 then CHR ''-'' # decimal (nat (- sint w)) else decimal (nat (sint w)))"

text \<open>
  \<^verbatim>\<open>std::string::substr(pos)\<close>: throws \<^verbatim>\<open>std::out_of_range\<close> when \<open>pos\<close> is
  greater than the length.
\<close>

definition substr :: "nat \<Rightarrow> string \<Rightarrow> error + string" where
  "substr pos str = (if pos > length str then Inl OutOfRange else Inr (drop pos str))"

text \<open>
  The submitting half of \<^verbatim>\<open>async_get\<close>, \<^verbatim>\<open>async_post\<close> and \<^verbatim>\<open>async_del\<close>: the
  handler they build is \<open>get_on_response\<close>, \<open>post_on_response\<close> or
  \<open>del_on_response\<close> with \<open>on_error\<close> and \<open>progress_report\<close>; the call itself
  passes the request on and returns the future.
\<close>

definition async_get ::
  "Platform \<Rightarrow> Environment \<Rightarrow> string list \<Rightarrow> (string \<times> string) list \<Rightarrow> Client \<Rightarrow> Client" where
  "async_get p env pth parameters c = get p env pth parameters c"

definition async_post ::
  "Platform \<Rightarrow> Environment \<Rightarrow> string list \<Rightarrow> (string \<times> string) list \<Rightarrow> string \<Rightarrow> string \<Rightarrow>
   Client \<Rightarrow> Client" where
  "async_post p env pth parameters postmsg content_type c =
     post p env pth parameters postmsg content_type c"

definition async_del ::
  "Platform \<Rightarrow> Environment \<Rightarrow> string list \<Rightarrow> (string \<times> string) list \<Rightarrow> Client \<Rightarrow> Client" where
  "async_del p env pth parameters c = del p env pth parameters c"

definition search ::
  "Platform \<Rightarrow> Environment \<Rightarrow> string \<Rightarrow> 32 word \<Rightarrow> string \<Rightarrow> Client \<Rightarrow> Client" where
  "search p env query max_results category_id c =
     (let parameters = [(''part'', ''snippet''), (''type'', ''video''), (''q'', query)];
          parameters = (if max_results > 0
                        then parameters @ [(''maxResults'', to_string_unsigned max_results)]
                        else parameters);
          parameters = (if category_id \<noteq> []
                        then parameters @ [(''videoCategoryId'', category_id)]
                        else parameters)
      in async_get p env [''youtube'', ''v3'', ''search''] parameters c)"

definition guide_categories ::
  "Platform \<Rightarrow> Environment \<Rightarrow> string \<Rightarrow> string \<Rightarrow> Client \<Rightarrow> Client" where
  "guide_categories p env region_code locale c =
     async_get p env [''youtube'', ''v3'', ''guideCategories'']
       [(''part'', ''snippet''), (''regionCode'', region_code), (''hl'', locale)] c"

definition subscription_channels :: "Platform \<Rightarrow> Environment \<Rightarrow> Client \<Rightarrow> Client" where
  "subscription_channels p env c =
     async_get p env [''youtube'', ''v3'', ''subscriptions'']
       [(''part'', ''snippet''), (''mine'', ''true''), (''maxResults'', ''50'')] c"

definition auth_user_info :: "Platform \<Rightarrow> Environment \<Rightarrow> Client \<Rightarrow> Client" where
  "auth_user_info p env c =
     async_get p env [''youtube'', ''v3'', ''channels'']
       [(''part'', ''snippet,contentDetails,statistics''), (''mine'', ''true'')] c"

text \<open>
  \<^verbatim>\<open>subscription_channel_uploads\<close>: the first statement computes
  \<^verbatim>\<open>department_id.substr(13)\<close> into a local \<^verbatim>\<open>id\<close> that no later statement reads.
  \<open>Inl\<close> is the exception leaving the operation, with the client as it was.
\<close>

definition subscription_channel_uploads ::
  "Platform \<Rightarrow> Environment \<Rightarrow> string \<Rightarrow> Client \<Rightarrow> error + Client" where
  "subscription_channel_uploads p env department_id c =
     (case substr 13 department_id of
        Inl e \<Rightarrow> Inl e
      | Inr ident \<Rightarrow>
          Inr (async_get p env [''youtube'', ''v3'', ''channels'']
                 [(''part'', ''snippet,contentDetails''), (''id'', department_id)] c))"

definition subscription_items :: "Platform \<Rightarrow> Environment \<Rightarrow> string \<Rightarrow> Client \<Rightarrow> Client" where
  "subscription_items p env playlistId c =
     async_get p env [''youtube'', ''v3'', ''playlistItems'']
       [(''part'', ''snippet''), (''playlistId'', playlistId), (''maxResults'', ''50'')] c"

definition category_channels :: "Platform \<Rightarrow> Environment \<Rightarrow> string \<Rightarrow> Client \<Rightarrow> Client" where
  "category_channels p env categoryId c =
     async_get p env [''youtube'', ''v3'', ''channels'']
       [(''part'', ''snippet,statistics''), (''categoryId'', categoryId)] c"

definition channels_statistics :: "Platform \<Rightarrow> Environment \<Rightarrow> string \<Rightarrow> Client \<Rightarrow> Client" where
  "channels_statistics p env channelId c =
     async_get p env [''youtube'', ''v3'', ''channels'']
       [(''part'', ''statistics,snippet''), (''id'', channelId)] c"

definition channel_sections ::
  "Platform \<Rightarrow> Environment \<Rightarrow> string \<Rightarrow> 32 word \<Rightarrow> Client \<Rightarrow> Client" where
  "channel_sections p env channelId maxResults c =
     async_get p env [''youtube'', ''v3'', ''channelSections'']
       [(''part'', ''contentDetails''), (''channelId'', channelId),
        (''maxResults'', to_string_int maxResults)] c"

definition channel_videos :: "Platform \<Rightarrow> Environment \<Rightarrow> string \<Rightarrow> Client \<Rightarrow> Client" where
  "channel_videos p env channelId c =
     async_get p env [''youtube'', ''v3'', ''search'']
       [(''part'', ''snippet''), (''type'', ''video''), (''order'', ''viewCount''),
        (''channelId'', channelId)] c"

definition chart_videos ::
  "Platform \<Rightarrow> Environment \<Rightarrow> string \<Rightarrow> string \<Rightarrow> string \<Rightarrow> Client \<Rightarrow> Client" where
  "chart_videos p env chart_name region_code category_id c =
     (let params = [(''part'', ''snippet''), (''regionCode'', region_code),
                    (''chart'', chart_name)];
          params = (if category_id \<noteq> []
                    then params @ [(''videoCategoryId'', category_id)]
                    else params)
      in async_get p env [''youtube'', ''v3'', ''videos''] params c)"

definition videos :: "Platform \<Rightarrow> Environment \<Rightarrow> string \<Rightarrow> Client \<Rightarrow> Client" where
  "videos p env video_id c =
     async_get p env [''youtube'', ''v3'', ''videos'']
       [(''part'', ''snippet,statistics''), (''id'', video_id)] c"

definition channel_playlists :: "Platform \<Rightarrow> Environment \<Rightarrow> string \<Rightarrow> Client \<Rightarrow> Client" where
  "channel_playlists p env channelId c =
     async_get p env [''youtube'', ''v3'', ''playlists'']
       [(''part'', ''snippet,contentDetails''), (''channelId'', channelId)] c"

definition playlist_items :: "Platform \<Rightarrow> Environment \<Rightarrow> string \<Rightarrow> Client \<Rightarrow> Client" where
  "playlist_items p env playlistId c =
     async_get p env [''youtube'', ''v3'', ''playlistItems'']
       [(''part'', ''snippet,contentDetails''), (''playlistId'', playlistId)] c"

definition video_comments :: "Platform \<Rightarrow> Environment \<Rightarrow> string \<Rightarrow> Client \<Rightarrow> Client" where
  "video_comments p env videoId c =
     async_get p env [''youtube'', ''v3'', ''commentThreads'']
       [(''part'', ''snippet''), (''order'', ''time''), (''videoId'', videoId),
        (''textFormat'', ''plainText''), (''maxResults'', ''15'')] c"

definition post_comments ::
  "Platform \<Rightarrow> Environment \<Rightarrow> string \<Rightarrow> string \<Rightarrow> Client \<Rightarrow> Client" where
  "post_comments p env videoId postmsg c =
     (let comThreadRoot =
            JObject [(''snippet'', JObject [(''topLevelComment'', JObject [(''snippet'',
              JObject [(''textOriginal'', JString postmsg),
                       (''videoId'', JString videoId)])])])];
          postbody = styled_write p comThreadRoot;
          content_type = ''application/json''
      in async_post p env [''youtube'', ''v3'', ''commentThreads'']
           [(''part'', ''snippet'')] postbody content_type c)"

definition rate :: "Platform \<Rightarrow> Environment \<Rightarrow> string \<Rightarrow> bool \<Rightarrow> Client \<Rightarrow> Client" where
  "rate p env videoId likes c =
     async_post p env [''youtube'', ''v3'', ''videos'', ''rate'']
       [(''id'', videoId), (''rating'', if likes then ''like'' else ''dislike'')] [] [] c"

definition subscribeId :: "Platform \<Rightarrow> Environment \<Rightarrow> string \<Rightarrow> Client \<Rightarrow> Client" where
  "subscribeId p env channelId c =
     async_get p env [''youtube'', ''v3'', ''subscriptions'']
       [(''part'', ''snippet''), (''mine'', ''true''), (''forChannelId'', channelId)] c"

definition subscribe :: "Platform \<Rightarrow> Environment \<Rightarrow> string \<Rightarrow> Client \<Rightarrow> Client" where
  "subscribe p env channelId c =
     (let channelRoot =
            JObject [(''snippet'', JObject [(''resourceId'',
              JObject [(''channelId'', JString channelId),
                       (''kind'', JString ''youtube#channel'')])])];
          postbody = styled_write p channelRoot;
          content_type = ''application/json''
      in async_post p env [''youtube'', ''v3'', ''subscriptions'']
           [(''part'', ''snippet'')] postbody content_type c)"

definition unSubscribe :: "Platform \<Rightarrow> Environment \<Rightarrow> string \<Rightarrow> Client \<Rightarrow> Client" where
  "unSubscribe p env subscribeId' c =
     async_del p env [''youtube'', ''v3'', ''subscriptions''] [(''id'', subscribeId')] c"

definition addVideoIntoPlayList ::
  "Platform \<Rightarrow> Environment \<Rightarrow> string \<Rightarrow> string \<Rightarrow> Client \<Rightarrow> Client" where
  "addVideoIntoPlayList p env videoId playlistId c =
     (let channelRoot =
            JObject [(''snippet'', JObject [(''playlistId'', JString playlistId),
              (''resourceId'', JObject [(''kind'', JString ''youtube#video''),
                                        (''videoId'', JString videoId)])])];
          postbody = styled_write p channelRoot;
          content_type = ''application/json''
      in async_post p env [''youtube'', ''v3'', ''playlistItems'']
           [(''part'', ''snippet'')] postbody content_type c)"

definition cancel :: "Client \<Rightarrow> Client" where
  "cancel c = c\<lparr> cancelled := True \<rparr>"

text \<open>
  \<^verbatim>\<open>Client::authenticated\<close>, that is \<^verbatim>\<open>Priv::authenticated\<close>: the answer and the
  client with its configuration resolved anew.
\<close>

definition Client_authenticated :: "Platform \<Rightarrow> Environment \<Rightarrow> Client \<Rightarrow> bool \<times> Client" where
  "Client_authenticated p env c =
     (let c' = update_config p env c in (authenticated (config c'), c'))"

text \<open>
  One call of a public operation with its arguments, and what it does to the client.
  Every call reads the environment of its own moment.
\<close>

datatype call =
    Search string "32 word" string
  | Guide_categories string string
  | Subscription_channels
  | Auth_user_info
  | Subscription_channel_uploads string
  | Subscription_items string
  | Category_channels string
  | Channels_statistics string
  | Channel_sections string "32 word"
  | Channel_videos string
  | Chart_videos string string string
  | Videos string
  | Channel_playlists string
  | Playlist_items string
  | Video_comments string
  | Post_comments string string
  | Rate string bool
  | SubscribeId string
  | Subscribe string
  | UnSubscribe string
  | AddVideoIntoPlayList string string
  | Cancel
  | Authenticated

fun perform :: "Platform \<Rightarrow> Environment \<Rightarrow> call \<Rightarrow> Client \<Rightarrow> error + Client" where
  "perform p env (Search q n cat) c = Inr (search p env q n cat c)"
| "perform p env (Guide_categories r l) c = Inr (guide_categories p env r l c)"
| "perform p env Subscription_channels c = Inr (subscription_channels p env c)"
| "perform p env Auth_user_info c = Inr (auth_user_info p env c)"
| "perform p env (Subscription_channel_uploads d) c = subscription_channel_uploads p env d c"
| "perform p env (Subscription_items l) c = Inr (subscription_items p env l c)"
| "perform p env (Category_channels g) c = Inr (category_channels p env g c)"
| "perform p env (Channels_statistics ch) c = Inr (channels_statistics p env ch c)"
| "perform p env (Channel_sections ch n) c = Inr (channel_sections p env ch n c)"
| "perform p env (Channel_videos ch) c = Inr (channel_videos p env ch c)"
| "perform p env (Chart_videos n r cat) c = Inr (chart_videos p env n r cat c)"
| "perform p env (Videos v) c = Inr (videos p env v c)"
| "perform p env (Channel_playlists ch) c = Inr (channel_playlists p env ch c)"
| "perform p env (Playlist_items l) c = Inr (playlist_items p env l c)"
| "perform p env (Video_comments v) c = Inr (video_comments p env v c)"
| "perform p env (Post_comments v m) c = Inr (post_comments p env v m c)"
| "perform p env (Rate v l) c = Inr (rate p env v l c)"
| "perform p env (SubscribeId ch) c = Inr (subscribeId p env ch c)"
| "perform p env (Subscribe ch) c = Inr (subscribe p env ch c)"
| "perform p env (UnSubscribe s) c = Inr (unSubscribe p env s c)"
| "perform p env (AddVideoIntoPlayList v l) c = Inr (addVideoIntoPlayList p env v l c)"
| "perform p env Cancel c = Inr (cancel c)"
| "perform p env Authenticated c = Inr (snd (Client_authenticated p env c))"

text \<open>
  The client after a call: an operation that throws leaves it as it was. A history is
  a list of calls, each with the environment it ran in.
\<close>

definition after :: "Platform \<Rightarrow> Environment \<times> call \<Rightarrow> Client \<Rightarrow> Client" where
  "after p ec c = (case perform p (fst ec) (snd ec) c of Inl e \<Rightarrow> c | Inr c' \<Rightarrow> c')"

fun history :: "Platform \<Rightarrow> (Environment \<times> call) list \<Rightarrow> Client \<Rightarrow> Client" where
  "history p [] c = c"
| "history p (ec # ecs) c = history p ecs (after p ec c)"

text \<open>
  Modelled from the spec: the engine that runs a request (\<^verbatim>\<open>core::net::http\<close>) is not
  among the sources. The spec says that on each progress tick the callback signals
  "abort operation" or "continue" to the engine and that cancellation "aborts
  in-flight work". For one request the engine sees ticks and then a response or a
  transport error; a tick answered with \<open>abort_operation\<close> ends the request, and no
  response of it is delivered.
\<close>

datatype event = Tick | Arrives Response | Breaks string

datatype delivery = Pending | Delivered Response | Aborted | Broken string

fun engine :: "Client \<Rightarrow> event list \<Rightarrow> delivery" where
  "engine c [] = Pending"
| "engine c (Tick # es) =
     (if progress_report c = abort_operation then Aborted else engine c es)"
| "engine c (Arrives r # es) = Delivered r"
| "engine c (Breaks e # es) = Broken e"

section \<open>What the specification says of the classifier and of the success predicate\<close>

text \<open>
  Reading a document without failure, for stating what the code computes: the member
  of an object, null where there is none or the value is no object; and the text of a
  value, empty where \<open>asString\<close> fails.
\<close>

definition field :: "string \<Rightarrow> json \<Rightarrow> json" where
  "field key j =
     (case j of
        JObject ms \<Rightarrow> (case map_of ms key of None \<Rightarrow> JNull | Some v \<Rightarrow> v)
      | _ \<Rightarrow> JNull)"

definition text_of :: "json \<Rightarrow> string" where
  "text_of j = (case asString j of Inl e \<Rightarrow> [] | Inr s \<Rightarrow> s)"

text \<open>
  The specification's resolved kind: \<^verbatim>\<open>item.kind\<close>, unless that equals
  \<^verbatim>\<open>"youtube#searchResult"\<close>, in which case it is \<^verbatim>\<open>item.id.kind\<close>.
\<close>

definition resolved_kind :: "json \<Rightarrow> string" where
  "resolved_kind item =
     (if text_of (field ''kind'' item) = ''youtube#searchResult''
      then text_of (field ''kind'' (field ''id'' item))
      else text_of (field ''kind'' item))"

text \<open>
  The specification's classifier: the elements of \<^verbatim>\<open>root.items\<close> (none when the
  member is absent or no array) whose resolved kind is the expected one, in their
  order.
\<close>

definition items_of :: "json \<Rightarrow> json list" where
  "items_of rootv = (case field ''items'' rootv of JArray xs \<Rightarrow> xs | _ \<Rightarrow> [])"

definition classify_spec :: "string \<Rightarrow> json \<Rightarrow> json list" where
  "classify_spec flt rootv = filter (\<lambda>item. resolved_kind item = flt) (items_of rootv)"

text \<open>
  The shapes on which the accessors do not fail: a value that may be indexed by a
  member name, and a value that \<open>asString\<close> converts.
\<close>

fun object_like :: "json \<Rightarrow> bool" where
  "object_like JNull = True"
| "object_like (JObject ms) = True"
| "object_like _ = False"

fun string_like :: "json \<Rightarrow> bool" where
  "string_like JNull = True"
| "string_like (JString s) = True"
| "string_like (JBool b) = True"
| "string_like _ = False"

text \<open>An item whose kind the classifier can read, and a root it can walk.\<close>

definition item_readable :: "json \<Rightarrow> bool" where
  "item_readable item =
     (object_like item \<and> string_like (field ''kind'' item) \<and>
      (text_of (field ''kind'' item) = ''youtube#searchResult'' \<longrightarrow>
         object_like (field ''id'' item) \<and> string_like (field ''kind'' (field ''id'' item))))"

definition root_readable :: "json \<Rightarrow> bool" where
  "root_readable rootv =
     (object_like rootv \<and>
      (case field ''items'' rootv of
         JArray xs \<Rightarrow> list_all item_readable xs
       | JObject ms \<Rightarrow> ms = []
       | _ \<Rightarrow> True))"

text \<open>
  The item as the classifier's accesses leave its local copy (with the null members
  they inserted), which is what the entity is constructed from.
\<close>

definition as_read :: "json \<Rightarrow> json" where
  "as_read item = (case item_kind item of Inl e \<Rightarrow> item | Inr (kind, item') \<Rightarrow> item')"

text \<open>
  The specification's success predicate: a null root, or a root whose \<^verbatim>\<open>id\<close> or
  \<^verbatim>\<open>kind\<close> is a non-empty string.
\<close>

fun nonempty_string :: "json \<Rightarrow> bool" where
  "nonempty_string (JString s) = (s \<noteq> [])"
| "nonempty_string _ = False"

definition success_spec :: "json \<Rightarrow> bool" where
  "success_spec rootv =
     (rootv = JNull \<or> nonempty_string (field ''id'' rootv) \<or>
      nonempty_string (field ''kind'' rootv))"

text \<open>A member that is absent, null or a string.\<close>

fun absent_or_string :: "json \<Rightarrow> bool" where
  "absent_or_string JNull = True"
| "absent_or_string (JString s) = True"
| "absent_or_string _ = False"

section \<open>Proofs: the classifier\<close>

lemma asString_string_like: "asString j = (if string_like j then Inr (text_of j) else Inl JsonTypeError)"
  by (cases j) (simp_all add: text_of_def)

lemma field_after_ref:
  "member_ref key j = Inr (v, j') \<Longrightarrow> key' \<noteq> key \<Longrightarrow> field key' j' = field key' j"
  by (cases j) (auto simp: field_def map_of_append split: option.splits)

lemma member_ref_object_like:
  "member_ref key j = Inr (v, j') \<Longrightarrow> object_like j' \<and> field key j' = v"
  by (cases j) (auto simp: field_def map_of_append split: option.splits)

lemma member_ref_fails: "\<not> object_like j \<Longrightarrow> member_ref key j = Inl JsonTypeError"
  by (cases j) simp_all

lemma member_ref_ok: "object_like j \<Longrightarrow> \<exists>j'. member_ref key j = Inr (field key j, j')"
  by (cases j) (auto simp: field_def split: option.splits)

lemma item_kind_fails:
  assumes "\<not> item_readable item"
  shows "item_kind item = Inl JsonTypeError"
proof (cases "object_like item")
  case False
  then show ?thesis by (simp add: item_kind_def member_ref_fails)
next
  case True
  then obtain item1 where r1: "member_ref ''kind'' item = Inr (field ''kind'' item, item1)"
    using member_ref_ok by blast
  show ?thesis
  proof (cases "string_like (field ''kind'' item)")
    case False
    then show ?thesis by (simp add: item_kind_def r1 asString_string_like)
  next
    case sl: True
    with True assms have sr: "text_of (field ''kind'' item) = ''youtube#searchResult''"
      and bad: "\<not> (object_like (field ''id'' item) \<and> string_like (field ''kind'' (field ''id'' item)))"
      by (auto simp: item_readable_def)
    from r1 have o1: "object_like item1" and f1: "field ''id'' item1 = field ''id'' item"
      using member_ref_object_like field_after_ref by (blast, fastforce)
    from o1 obtain item2 where r2: "member_ref ''id'' item1 = Inr (field ''id'' item, item2)"
      using member_ref_ok f1 by metis
    show ?thesis
    proof (cases "object_like (field ''id'' item)")
      case False
      then show ?thesis
        by (simp add: item_kind_def r1 r2 asString_string_like sl sr member_ref_fails)
    next
      case True
      then obtain idv' where r3: "member_ref ''kind'' (field ''id'' item) = Inr (field ''kind'' (field ''id'' item), idv')"
        using member_ref_ok by blast
      from True bad have "\<not> string_like (field ''kind'' (field ''id'' item))" by simp
      then show ?thesis
        by (simp add: item_kind_def r1 r2 r3 asString_string_like sl sr)
    qed
  qed
qed

lemma item_kind_ok:
  assumes "item_readable item"
  shows "\<exists>item'. item_kind item = Inr (resolved_kind item, item')"
proof -
  from assms have ol: "object_like item" and sl: "string_like (field ''kind'' item)"
    by (simp_all add: item_readable_def)
  from ol obtain item1 where r1: "member_ref ''kind'' item = Inr (field ''kind'' item, item1)"
    using member_ref_ok by blast
  show ?thesis
  proof (cases "text_of (field ''kind'' item) = ''youtube#searchResult''")
    case False
    then show ?thesis
      by (simp add: item_kind_def r1 asString_string_like sl resolved_kind_def)
  next
    case sr: True
    with assms have oi: "object_like (field ''id'' item)"
      and si: "string_like (field ''kind'' (field ''id'' item))"
      by (simp_all add: item_readable_def)
    from r1 have o1: "object_like item1" and f1: "field ''id'' item1 = field ''id'' item"
      using member_ref_object_like field_after_ref by (blast, fastforce)
    from o1 obtain item2 where r2: "member_ref ''id'' item1 = Inr (field ''id'' item, item2)"
      using member_ref_ok f1 by metis
    from oi obtain idv' where r3: "member_ref ''kind'' (field ''id'' item) = Inr (field ''kind'' (field ''id'' item), idv')"
      using member_ref_ok by blast
    show ?thesis
      by (simp add: item_kind_def r1 r2 r3 asString_string_like sl sr si resolved_kind_def)
  qed
qed

lemma item_kind_char:
  "item_kind item = (if item_readable item then Inr (resolved_kind item, as_read item) else Inl JsonTypeError)"
proof (cases "item_readable item")
  case True
  then obtain item' where "item_kind item = Inr (resolved_kind item, item')"
    using item_kind_ok by blast
  with True show ?thesis by (simp add: as_read_def)
next
  case False
  then show ?thesis by (simp add: item_kind_fails)
qed

lemma typed_loop_array:
  "typed_loop mk flt (JArray xs) i acc =
     (if list_all item_readable (drop i xs)
      then Inr (acc @ map (\<lambda>item. mk (as_read item)) (filter (\<lambda>item. resolved_kind item = flt) (drop i xs)))
      else Inl JsonTypeError)"
proof (induction "length xs - i" arbitrary: i acc)
  case 0
  then show ?case by simp
next
  case (Suc n)
  then have lt: "i < length xs" and n: "n = length xs - Suc i" by simp_all
  have d: "drop i xs = xs ! i # drop (Suc i) xs"
    using lt by (simp add: Cons_nth_drop_Suc)
  show ?case
    using Suc.hyps(1) [OF n] lt
    by (subst typed_loop.simps) (simp add: d item_kind_char)
qed

lemma as_read_same:
  assumes "item_readable item" and "resolved_kind item \<noteq> []"
  shows "as_read item = item"
proof -
  have nn: "text_of JNull = []" by (simp add: text_of_def)
  from assms have k: "field ''kind'' item \<noteq> JNull"
    by (auto simp: resolved_kind_def field_def nn)
  then obtain ms kv where item: "item = JObject ms" and mk: "map_of ms ''kind'' = Some kv"
    by (cases item) (auto simp: field_def split: option.splits)
  have r1: "member_ref ''kind'' item = Inr (kv, item)" by (simp add: item mk)
  have fk: "field ''kind'' item = kv" by (simp add: item mk field_def)
  from assms(1) have sl: "string_like kv" by (simp add: item_readable_def fk)
  show ?thesis
  proof (cases "text_of kv = ''youtube#searchResult''")
    case False
    then show ?thesis
      by (simp add: as_read_def item_kind_def r1 asString_string_like sl)
  next
    case sr: True
    with assms(2) have k2: "field ''kind'' (field ''id'' item) \<noteq> JNull"
      by (auto simp: resolved_kind_def fk nn)
    then obtain ims kv2 where idv: "field ''id'' item = JObject ims"
      and mk2: "map_of ims ''kind'' = Some kv2"
      by (cases "field ''id'' item") (auto simp: field_def split: option.splits)
    from idv have mi: "map_of ms ''id'' = Some (JObject ims)"
      by (auto simp: item field_def split: option.splits)
    have r2: "member_ref ''id'' item = Inr (JObject ims, item)" by (simp add: item mi)
    have r3: "member_ref ''kind'' (JObject ims) = Inr (kv2, JObject ims)" by (simp add: mk2)
    from assms(1) sr have "string_like (field ''kind'' (JObject ims))"
      by (simp add: item_readable_def fk idv)
    then have sl2: "string_like kv2" by (simp add: field_def mk2)
    have pm: "put_member ''id'' (JObject ims) item = item"
      by (simp add: item update_triv [OF mi])
    show ?thesis
      by (simp add: as_read_def item_kind_def r1 r2 r3 asString_string_like sl sl2 sr pm
            del: member_ref.simps)
  qed
qed

lemma typed_loop_empty: "size_json data = 0 \<Longrightarrow> typed_loop mk flt data 0 acc = Inr acc"
  by (subst typed_loop.simps) simp

lemma typed_loop_object:
  "ms \<noteq> [] \<Longrightarrow> typed_loop mk flt (JObject ms) 0 acc = Inl JsonTypeError"
  by (subst typed_loop.simps) (cases ms; auto)

text \<open>
  Claim C1, as amended. The classifier returns exactly on the readable roots: a null or
  object root whose \<^verbatim>\<open>items\<close> is absent, empty, a scalar, or an array of null or
  object items with a kind that \<open>asString\<close> converts (and, for a search result, an
  \<^verbatim>\<open>id\<close> of the same shape). There it returns, in the order of the array, the
  entities of the elements of \<^verbatim>\<open>root.items\<close> whose resolved kind equals the expected
  kind, where the resolved kind is \<^verbatim>\<open>item.kind\<close> unless that equals
  \<^verbatim>\<open>"youtube#searchResult"\<close>, in which case it is \<^verbatim>\<open>item.id.kind\<close>; every other
  item is dropped, and an absent or empty \<^verbatim>\<open>items\<close> gives the empty list. Each
  entity is constructed from the item as the accesses left it, which for a non-empty
  expected kind is the item itself. On every other root the classifier raises a JSON
  type error.
\<close>

theorem get_typed_list_classifies:
  "get_typed_list mk flt rootv =
     (if root_readable rootv
      then Inr (map (\<lambda>item. mk (as_read item)) (classify_spec flt rootv))
      else Inl JsonTypeError)
   \<and> (flt \<noteq> [] \<and> root_readable rootv \<longrightarrow>
        get_typed_list mk flt rootv = Inr (map mk (classify_spec flt rootv)))"
proof -
  have main: "get_typed_list mk flt rootv =
     (if root_readable rootv
      then Inr (map (\<lambda>item. mk (as_read item)) (classify_spec flt rootv))
      else Inl JsonTypeError)"
  proof (cases "object_like rootv")
    case False
    then show ?thesis
      by (cases rootv) (simp_all add: get_typed_list_def root_readable_def)
  next
    case True
    then have mc: "member_const ''items'' rootv = Inr (field ''items'' rootv)"
      by (cases rootv) (simp_all add: field_def)
    show ?thesis
    proof (cases "field ''items'' rootv")
      case (JArray xs)
      then show ?thesis
        using True typed_loop_array [of mk flt xs 0 "[]"]
        by (simp add: get_typed_list_def mc root_readable_def classify_spec_def items_of_def)
    next
      case (JObject ms)
      then show ?thesis
        using True typed_loop_object [of ms mk flt "[]"] typed_loop_empty [of "JObject []" mk flt "[]"]
        by (cases "ms = []")
           (simp_all add: get_typed_list_def mc root_readable_def classify_spec_def items_of_def)
    qed (use True in \<open>simp_all add: get_typed_list_def mc root_readable_def classify_spec_def
           items_of_def typed_loop_empty\<close>)
  qed
  have same: "map (\<lambda>item. mk (as_read item)) (classify_spec flt rootv) = map mk (classify_spec flt rootv)"
    if "flt \<noteq> []" "root_readable rootv"
  proof -
    have "as_read item = item" if "item \<in> set (classify_spec flt rootv)" for item
    proof -
      from that have r: "resolved_kind item = flt" and i: "item \<in> set (items_of rootv)"
        by (simp_all add: classify_spec_def)
      from i \<open>root_readable rootv\<close> have "item_readable item"
        by (auto simp: items_of_def root_readable_def list_all_iff split: json.splits)
      with r \<open>flt \<noteq> []\<close> show ?thesis by (simp add: as_read_same)
    qed
    then show ?thesis by simp
  qed
  show ?thesis using main same by simp
qed


theorem get_typed_list_classifies_witness:
  "root_readable (JObject [(''items'', JArray
       [JObject [(''kind'', JString ''youtube#searchResult''),
                 (''id'', JObject [(''kind'', JString ''youtube#video'')])],
        JObject [(''kind'', JString ''youtube#channel'')],
        JObject [(''kind'', JString ''youtube#video''), (''id'', JString ''v1'')]])])
   \<and> get_typed_list id ''youtube#video'' (JObject [(''items'', JArray
       [JObject [(''kind'', JString ''youtube#searchResult''),
                 (''id'', JObject [(''kind'', JString ''youtube#video'')])],
        JObject [(''kind'', JString ''youtube#channel'')],
        JObject [(''kind'', JString ''youtube#video''), (''id'', JString ''v1'')]])])
     = Inr [JObject [(''kind'', JString ''youtube#searchResult''),
                     (''id'', JObject [(''kind'', JString ''youtube#video'')])],
            JObject [(''kind'', JString ''youtube#video''), (''id'', JString ''v1'')]]"
  using get_typed_list_classifies [of id "''youtube#video''" "JObject [(''items'', JArray
       [JObject [(''kind'', JString ''youtube#searchResult''),
                 (''id'', JObject [(''kind'', JString ''youtube#video'')])],
        JObject [(''kind'', JString ''youtube#channel'')],
        JObject [(''kind'', JString ''youtube#video''), (''id'', JString ''v1'')]])]"]
  by (simp add: root_readable_def item_readable_def field_def text_of_def classify_spec_def
        items_of_def resolved_kind_def as_read_def item_kind_def)

text \<open>
  Claim C1 as stated ("for every JSON root") fails where an item's kind is an array:
  the specification's list is empty, the code raises in \<^verbatim>\<open>asString\<close>.
\<close>

theorem get_typed_list_counterexample:
  "get_typed_list id ''youtube#video''
     (JObject [(''items'', JArray [JObject [(''kind'', JArray [])]])]) = Inl JsonTypeError
   \<and> classify_spec ''youtube#video''
     (JObject [(''items'', JArray [JObject [(''kind'', JArray [])]])]) = []"
  by (simp add: get_typed_list_def item_kind_def classify_spec_def items_of_def field_def
        resolved_kind_def text_of_def)

section \<open>Proofs: the success predicate\<close>

lemma member_const_field:
  "member_const key j = (if object_like j then Inr (field key j) else Inl JsonTypeError)"
  by (cases j) (simp_all add: field_def)

text \<open>
  Claim C3, as amended. The success predicate returns true for a null root. For a
  root that is not null it returns exactly when the root is an object, its \<^verbatim>\<open>id\<close>
  is absent, null, a string or a boolean, and, if the id's text is empty, its
  \<^verbatim>\<open>kind\<close> is so too; it then returns true iff the text of the id or the text of
  the kind is non-empty, and otherwise it raises a JSON type error. In particular, on
  an object whose \<^verbatim>\<open>id\<close> and \<^verbatim>\<open>kind\<close> are each absent, null or a string it returns
  true iff the id is a non-empty string or the kind is a non-empty string: false for
  the empty object, true for \<^verbatim>\<open>{id:"x"}\<close> and for \<^verbatim>\<open>{kind:"youtube#channel"}\<close>.
\<close>

theorem is_successful_cases:
  "is_successful rootv =
     (if rootv = JNull then Inr True
      else if object_like rootv \<and> string_like (field ''id'' rootv) \<and>
              (text_of (field ''id'' rootv) = [] \<longrightarrow> string_like (field ''kind'' rootv))
      then Inr (text_of (field ''id'' rootv) \<noteq> [] \<or> text_of (field ''kind'' rootv) \<noteq> [])
      else Inl JsonTypeError)
   \<and> (object_like rootv \<and> absent_or_string (field ''id'' rootv) \<and>
        absent_or_string (field ''kind'' rootv) \<longrightarrow>
        is_successful rootv = Inr (success_spec rootv))"
proof -
  have main: "is_successful rootv =
     (if rootv = JNull then Inr True
      else if object_like rootv \<and> string_like (field ''id'' rootv) \<and>
              (text_of (field ''id'' rootv) = [] \<longrightarrow> string_like (field ''kind'' rootv))
      then Inr (text_of (field ''id'' rootv) \<noteq> [] \<or> text_of (field ''kind'' rootv) \<noteq> [])
      else Inl JsonTypeError)"
    by (simp add: is_successful_def isNull_def member_const_field asString_string_like)
  have t: "(text_of j \<noteq> []) = nonempty_string j" "string_like j" if "absent_or_string j" for j
    using that by (cases j; simp add: text_of_def)+
  have "is_successful rootv = Inr (success_spec rootv)"
    if "object_like rootv" "absent_or_string (field ''id'' rootv)"
       "absent_or_string (field ''kind'' rootv)"
    using that t [of "field ''id'' rootv"] t [of "field ''kind'' rootv"]
    by (simp add: main success_spec_def)
  with main show ?thesis by blast
qed

theorem is_successful_cases_witness:
  "is_successful JNull = Inr True
   \<and> is_successful (JObject []) = Inr False
   \<and> is_successful (JObject [(''id'', JString ''x'')]) = Inr True
   \<and> is_successful (JObject [(''kind'', JString ''youtube#channel'')]) = Inr True"
  using is_successful_cases [of JNull] is_successful_cases [of "JObject []"]
    is_successful_cases [of "JObject [(''id'', JString ''x'')]"]
    is_successful_cases [of "JObject [(''kind'', JString ''youtube#channel'')]"]
  by (simp add: field_def success_spec_def text_of_def)

text \<open>
  Claim C3 as stated ("for every non-null root") fails on an object whose kind is a
  non-empty string and whose id is an array: the specification's predicate holds, the
  code raises when it converts the id.
\<close>

theorem is_successful_counterexample:
  "is_successful (JObject [(''id'', JArray []), (''kind'', JString ''youtube#channel'')])
     = Inl JsonTypeError
   \<and> success_spec (JObject [(''id'', JArray []), (''kind'', JString ''youtube#channel'')])"
  by (simp add: is_successful_def isNull_def success_spec_def field_def)

section \<open>Proofs: the response pipeline\<close>






text \<open>
  Claim C5. On the GET path a non-empty body goes through the decompressor first. If
  that fails, the pending result is fulfilled with \<^verbatim>\<open>gzip_error\<close>, whatever the
  reader, the decoder and the status are: nothing else is run. If it succeeds, the
  reader is run on the decompressed text and the handler goes on to the status test.
  For an empty body the handler goes on with the empty string as the decompressed
  text, and its result is not a decompression error.
\<close>

theorem gzip_before_json:
  "(body response \<noteq> [] \<and> gunzip (body response) = None \<longrightarrow>
      get_on_response gunzip reader func response = Fulfilled (set_exception gzip_error))
   \<and> (\<forall>decompressed. body response \<noteq> [] \<and> gunzip (body response) = Some decompressed \<longrightarrow>
      get_on_response gunzip reader func response =
        settle (status response \<noteq> ok) func (snd (reader decompressed)))
   \<and> (body response = [] \<longrightarrow>
      get_on_response gunzip reader func response =
        settle (status response \<noteq> ok) func (snd (reader [])) \<and>
      get_on_response gunzip reader func response \<noteq> Fulfilled (set_exception gzip_error))"
  by (auto simp: get_on_response_def Let_def settle_def split: sum.splits)

lemma error_message_null: "error_message JNull = Inr []"
  by (simp add: error_message_def)

text \<open>
  Claim C6. For a text that is not well-formed JSON (the empty string among them, when
  the grammar has no document for it) the reader reports failure and leaves the root
  null; no handler looks at the report. The GET handler (after decompression) and the
  POST and DELETE handlers go on to the status test with the null root: a failing
  status fulfils the pending result with a \<^verbatim>\<open>domain_error\<close> whose message is empty,
  since \<^verbatim>\<open>root["error"]\<close> is absent, and any other status runs the decoder on the
  null root.
\<close>

theorem malformed_body_gives_null_root:
  "grammar document = None \<longrightarrow>
     reader_parse grammar document = (False, JNull)
     \<and> ((if body response \<noteq> [] then gunzip (body response) else Some []) = Some document \<longrightarrow>
          get_on_response gunzip (reader_parse grammar) func response =
            (if status response \<noteq> ok then Fulfilled (set_exception (domain_error []))
             else (case func JNull of Inl e \<Rightarrow> Escaped e | Inr v \<Rightarrow> Fulfilled (set_value v))))
     \<and> (body response = document \<longrightarrow>
          post_on_response (reader_parse grammar) func response =
            (if status response \<notin> {created, ok, no_content}
             then Fulfilled (set_exception (domain_error []))
             else (case func JNull of Inl e \<Rightarrow> Escaped e | Inr v \<Rightarrow> Fulfilled (set_value v)))
          \<and> del_on_response (reader_parse grammar) func response =
            (if status response \<notin> {created, ok, no_content}
             then Fulfilled (set_exception (domain_error []))
             else (case func JNull of Inl e \<Rightarrow> Escaped e | Inr v \<Rightarrow> Fulfilled (set_value v))))"
  by (auto simp: reader_parse_def get_on_response_def post_on_response_def del_on_response_def
        settle_def error_message_null)


theorem gzip_before_json_witness:
  "body \<lparr> status = ok, body = ''x'' \<rparr> \<noteq> []
   \<and> [''gz'' \<mapsto> ''doc''] (body \<lparr> status = ok, body = ''x'' \<rparr>) = None
   \<and> get_on_response [''gz'' \<mapsto> ''doc'']
        (reader_parse [''doc'' \<mapsto> JObject [(''id'', JString ''x'')]]) is_successful
        \<lparr> status = ok, body = ''x'' \<rparr> = Fulfilled (set_exception gzip_error)
   \<and> get_on_response [''gz'' \<mapsto> ''doc'']
        (reader_parse [''doc'' \<mapsto> JObject [(''id'', JString ''x'')]]) is_successful
        \<lparr> status = ok, body = ''gz'' \<rparr> = Fulfilled (set_value True)
   \<and> get_on_response [''gz'' \<mapsto> ''doc'']
        (reader_parse [''doc'' \<mapsto> JObject [(''id'', JString ''x'')]]) is_successful
        \<lparr> status = ok, body = [] \<rparr> = Fulfilled (set_value True)"
  using gzip_before_json [where response = "\<lparr> status = ok, body = ''x'' \<rparr>"
      and gunzip = "[''gz'' \<mapsto> ''doc'']"
      and reader = "reader_parse [''doc'' \<mapsto> JObject [(''id'', JString ''x'')]]"
      and func = is_successful]
    gzip_before_json [where response = "\<lparr> status = ok, body = ''gz'' \<rparr>"
      and gunzip = "[''gz'' \<mapsto> ''doc'']"
      and reader = "reader_parse [''doc'' \<mapsto> JObject [(''id'', JString ''x'')]]"
      and func = is_successful]
    gzip_before_json [where response = "\<lparr> status = ok, body = [] \<rparr>"
      and gunzip = "[''gz'' \<mapsto> ''doc'']"
      and reader = "reader_parse [''doc'' \<mapsto> JObject [(''id'', JString ''x'')]]"
      and func = is_successful]
  by (simp add: reader_parse_def is_successful_def isNull_def settle_def)

theorem malformed_body_gives_null_root_witness:
  "[''{}'' \<mapsto> JObject []] [] = None
   \<and> reader_parse [''{}'' \<mapsto> JObject []] [] = (False, JNull)
   \<and> post_on_response (reader_parse [''{}'' \<mapsto> JObject []]) is_successful
        \<lparr> status = no_content, body = [] \<rparr> = Fulfilled (set_value True)
   \<and> get_on_response Map.empty (reader_parse [''{}'' \<mapsto> JObject []])
        (get_typed_list id ''youtube#video'') \<lparr> status = 404, body = [] \<rparr>
        = Fulfilled (set_exception (domain_error []))"
  using malformed_body_gives_null_root [where grammar = "[''{}'' \<mapsto> JObject []]"
      and document = "[]" and response = "\<lparr> status = no_content, body = [] \<rparr>"
      and func = is_successful and gunzip = Map.empty]
    malformed_body_gives_null_root [where grammar = "[''{}'' \<mapsto> JObject []]"
      and document = "[]" and response = "\<lparr> status = 404, body = [] \<rparr>"
      and func = "get_typed_list id ''youtube#video''" and gunzip = Map.empty]
  by (simp add: is_successful_def isNull_def ok_def created_def no_content_def)

section \<open>Proofs: configuration, requests and cancellation\<close>

lemma update_config_keeps:
  "cancelled (update_config p env c) = cancelled c"
  "executing (update_config p env c) = executing c"
  by (simp_all add: update_config_def Let_def split: option.splits)

lemma get_keeps: "cancelled (get p env pth parameters c) = cancelled c"
  by (simp add: get_def net_config_def Let_def update_config_keeps)

lemma post_keeps: "cancelled (post p env pth parameters m t c) = cancelled c"
  by (simp add: post_def net_config_def Let_def update_config_keeps)

lemma del_keeps: "cancelled (del p env pth parameters c) = cancelled c"
  by (simp add: del_def net_config_def Let_def update_config_keeps)

lemma get_submits:
  "\<exists>rq. executing (get p env pth parameters c) = executing c @ [rq]"
  by (simp add: get_def net_config_def Let_def update_config_keeps)

lemma post_submits:
  "\<exists>rq. executing (post p env pth parameters m t c) = executing c @ [rq]"
  by (simp add: post_def net_config_def Let_def update_config_keeps)

lemma del_submits:
  "\<exists>rq. executing (del p env pth parameters c) = executing c @ [rq]"
  by (simp add: del_def net_config_def Let_def update_config_keeps)

lemmas op_defs = search_def guide_categories_def subscription_channels_def auth_user_info_def
  subscription_channel_uploads_def subscription_items_def category_channels_def
  channels_statistics_def channel_sections_def channel_videos_def chart_videos_def videos_def
  channel_playlists_def playlist_items_def video_comments_def post_comments_def rate_def
  subscribeId_def subscribe_def unSubscribe_def addVideoIntoPlayList_def
  async_get_def async_post_def async_del_def

lemma perform_keeps_cancelled:
  "perform p env k c = Inr c' \<Longrightarrow> cancelled c \<Longrightarrow> cancelled c'"
  by (cases k)
     (auto simp: op_defs Let_def get_keeps post_keeps del_keeps cancel_def
        Client_authenticated_def update_config_keeps split: sum.splits)

lemma perform_keeps_clear:
  "perform p env k c = Inr c' \<Longrightarrow> k \<noteq> Cancel \<Longrightarrow> cancelled c' = cancelled c"
  by (cases k)
     (auto simp: op_defs Let_def get_keeps post_keeps del_keeps
        Client_authenticated_def update_config_keeps split: sum.splits)

lemma after_keeps_cancelled: "cancelled c \<Longrightarrow> cancelled (after p ec c)"
  by (auto simp: after_def split: sum.splits dest: perform_keeps_cancelled)

lemma history_keeps_cancelled: "cancelled c \<Longrightarrow> cancelled (history p ecs c)"
  by (induction ecs arbitrary: c) (simp_all add: after_keeps_cancelled)

lemma history_append: "history p (xs @ ys) c = history p ys (history p xs c)"
  by (induction xs arbitrary: c) simp_all

lemma history_clear:
  "Cancel \<notin> snd ` set ecs \<Longrightarrow> cancelled (history p ecs c) = cancelled c"
proof (induction ecs arbitrary: c)
  case Nil
  then show ?case by simp
next
  case (Cons ec ecs)
  then have "snd ec \<noteq> Cancel" by auto
  then have "cancelled (after p ec c) = cancelled c"
    by (auto simp: after_def split: sum.splits dest: perform_keeps_clear)
  with Cons show ?case by simp
qed

lemma perform_submits:
  "perform p env k c = Inr c' \<Longrightarrow> k \<noteq> Cancel \<Longrightarrow> k \<noteq> Authenticated \<Longrightarrow>
   \<exists>rq. executing c' = executing c @ [rq]"
  by (cases k)
     (auto simp: op_defs Let_def get_submits post_submits del_submits split: sum.splits)

lemma first_authenticated_find:
  "first_authenticated c ss =
     (case List.find service_authenticated ss of
        None \<Rightarrow> c
      | Some s \<Rightarrow> c\<lparr> authenticated := True, access_token := status_access_token s,
                     client_id := status_client_id s, client_secret := status_client_secret s \<rparr>)"
  by (induction ss) simp_all

lemma update_config_authenticated:
  "authenticated (config (update_config p env c)) \<longleftrightarrow>
     \<not> YOUTUBE_SCOPE_IGNORE_ACCOUNTS env \<and>
     List.find service_authenticated (get_service_statuses env) \<noteq> None"
  by (auto simp: update_config_def Let_def Config_default_def first_authenticated_find
        split: option.splits)

lemma update_config_token:
  "\<not> YOUTUBE_SCOPE_IGNORE_ACCOUNTS env \<Longrightarrow>
   List.find service_authenticated (get_service_statuses env) = Some s \<Longrightarrow>
   access_token (config (update_config p env c)) = status_access_token s"
  by (auto simp: update_config_def Let_def Config_default_def first_authenticated_find
        split: option.splits)

lemma get_request:
  "executing (get p env pth parameters c) = executing c @
     [\<lparr> verb = HEAD,
        configuration =
          \<lparr> uri = \<lparr> host = apiroot (config (update_config p env c)), path = pth,
                    query_parameters =
                      (if authenticated (config (update_config p env c)) then parameters
                       else parameters @ [(''key'', api_key (config (update_config p env c)))]) \<rparr>,
            header =
              (if authenticated (config (update_config p env c))
               then [(''Authorization'', ''Bearer '' @ access_token (config (update_config p env c)))]
               else []) @
              [(''Accept'', accept (config (update_config p env c))),
               (''User-Agent'', user_agent (config (update_config p env c)) @ '' (gzip)''),
               (''Accept-Encoding'', ''gzip'')] \<rparr>,
        payload = [], payload_type = [] \<rparr>]"
  by (simp add: get_def net_config_def Let_def update_config_keeps)

lemma post_request:
  "executing (post p env pth parameters postmsg content_type c) = executing c @
     [\<lparr> verb = POST,
        configuration =
          \<lparr> uri = \<lparr> host = apiroot (config (update_config p env c)), path = pth,
                    query_parameters =
                      (if authenticated (config (update_config p env c)) then parameters
                       else parameters @ [(''key'', api_key (config (update_config p env c)))]) \<rparr>,
            header =
              (if authenticated (config (update_config p env c))
               then [(''Authorization'', ''Bearer '' @ access_token (config (update_config p env c)))]
               else []) @
              [(''User-Agent'', user_agent (config (update_config p env c))),
               (''Content-Type'', content_type)] \<rparr>,
        payload = postmsg, payload_type = content_type \<rparr>]"
  by (simp add: post_def net_config_def Let_def update_config_keeps)

lemma del_request:
  "executing (del p env pth parameters c) = executing c @
     [\<lparr> verb = POST,
        configuration =
          \<lparr> uri = \<lparr> host = apiroot (config (update_config p env c)), path = pth,
                    query_parameters =
                      (if authenticated (config (update_config p env c)) then parameters
                       else parameters @ [(''key'', api_key (config (update_config p env c)))]) \<rparr>,
            header =
              (if authenticated (config (update_config p env c))
               then [(''Authorization'', ''Bearer '' @ access_token (config (update_config p env c)))]
               else []) @
              [(''User-Agent'', user_agent (config (update_config p env c))),
               (''X-HTTP-Method-Override'', ''DELETE'')] \<rparr>,
        payload = [], payload_type = [] \<rparr>]"
  by (simp add: del_def net_config_def Let_def update_config_keeps)

text \<open>
  Claim C4. Every request that \<^verbatim>\<open>get\<close>, \<^verbatim>\<open>post\<close> or \<^verbatim>\<open>del\<close> hands to the
  engine carries exactly one means of authentication. When the configuration resolved
  for the call is authenticated, its only \<^verbatim>\<open>Authorization\<close> header is
  \<^verbatim>\<open>Bearer\<close> with the access token and its query parameters are the caller's, with
  no \<^verbatim>\<open>key\<close> appended; when it is not, there is no \<^verbatim>\<open>Authorization\<close> header and
  the query parameters are the caller's followed by \<^verbatim>\<open>key\<close> with the API key.
\<close>

theorem one_authentication_mechanism:
  "rq \<in> {last (executing (get p env pth parameters c)),
          last (executing (post p env pth parameters postmsg content_type c)),
          last (executing (del p env pth parameters c))} \<longrightarrow>
   (authenticated (config (update_config p env c)) \<longrightarrow>
      filter (\<lambda>h. fst h = ''Authorization'') (header (configuration rq)) =
        [(''Authorization'', ''Bearer '' @ access_token (config (update_config p env c)))] \<and>
      query_parameters (uri (configuration rq)) = parameters) \<and>
   (\<not> authenticated (config (update_config p env c)) \<longrightarrow>
      filter (\<lambda>h. fst h = ''Authorization'') (header (configuration rq)) = [] \<and>
      query_parameters (uri (configuration rq)) =
        parameters @ [(''key'', api_key (config (update_config p env c)))])"
  by (auto simp: get_request post_request del_request)

theorem one_authentication_mechanism_witness:
  "\<not> authenticated (config (update_config
          \<lparr> default_apiroot = ''https://www.googleapis.com'', default_api_key = ''K'',
            default_user_agent = ''unity-scope-youtube'', default_accept = ''application/json'',
            styled_write = text_of \<rparr>
          \<lparr> YOUTUBE_SCOPE_APIROOT = None, YOUTUBE_SCOPE_IGNORE_ACCOUNTS = False,
            get_service_statuses = [] \<rparr> (Priv
          \<lparr> default_apiroot = ''https://www.googleapis.com'', default_api_key = ''K'',
            default_user_agent = ''unity-scope-youtube'', default_accept = ''application/json'',
            styled_write = text_of \<rparr>)))
   \<and> header (configuration (last (executing (get
          \<lparr> default_apiroot = ''https://www.googleapis.com'', default_api_key = ''K'',
            default_user_agent = ''unity-scope-youtube'', default_accept = ''application/json'',
            styled_write = text_of \<rparr>
          \<lparr> YOUTUBE_SCOPE_APIROOT = None, YOUTUBE_SCOPE_IGNORE_ACCOUNTS = False,
            get_service_statuses = [] \<rparr> [''youtube'', ''v3'', ''search'']
        [(''part'', ''snippet'')] (Priv
          \<lparr> default_apiroot = ''https://www.googleapis.com'', default_api_key = ''K'',
            default_user_agent = ''unity-scope-youtube'', default_accept = ''application/json'',
            styled_write = text_of \<rparr>))))) =
      [(''Accept'', ''application/json''), (''User-Agent'', ''unity-scope-youtube (gzip)''),
       (''Accept-Encoding'', ''gzip'')]
   \<and> query_parameters (uri (configuration (last (executing (get
          \<lparr> default_apiroot = ''https://www.googleapis.com'', default_api_key = ''K'',
            default_user_agent = ''unity-scope-youtube'', default_accept = ''application/json'',
            styled_write = text_of \<rparr>
          \<lparr> YOUTUBE_SCOPE_APIROOT = None, YOUTUBE_SCOPE_IGNORE_ACCOUNTS = False,
            get_service_statuses = [] \<rparr>
        [''youtube'', ''v3'', ''search''] [(''part'', ''snippet'')] (Priv
          \<lparr> default_apiroot = ''https://www.googleapis.com'', default_api_key = ''K'',
            default_user_agent = ''unity-scope-youtube'', default_accept = ''application/json'',
            styled_write = text_of \<rparr>)))))) =
      [(''part'', ''snippet''), (''key'', ''K'')]
   \<and> authenticated (config (update_config
          \<lparr> default_apiroot = ''https://www.googleapis.com'', default_api_key = ''K'',
            default_user_agent = ''unity-scope-youtube'', default_accept = ''application/json'',
            styled_write = text_of \<rparr>
          \<lparr> YOUTUBE_SCOPE_APIROOT = None, YOUTUBE_SCOPE_IGNORE_ACCOUNTS = False,
            get_service_statuses =
              [\<lparr> service_authenticated = True, status_access_token = ''T'',
                 status_client_id = ''I'', status_client_secret = ''S'' \<rparr>] \<rparr> (Priv
          \<lparr> default_apiroot = ''https://www.googleapis.com'', default_api_key = ''K'',
            default_user_agent = ''unity-scope-youtube'', default_accept = ''application/json'',
            styled_write = text_of \<rparr>)))
   \<and> filter (\<lambda>h. fst h = ''Authorization'') (header (configuration (last (executing
        (del
          \<lparr> default_apiroot = ''https://www.googleapis.com'', default_api_key = ''K'',
            default_user_agent = ''unity-scope-youtube'', default_accept = ''application/json'',
            styled_write = text_of \<rparr>
          \<lparr> YOUTUBE_SCOPE_APIROOT = None, YOUTUBE_SCOPE_IGNORE_ACCOUNTS = False,
            get_service_statuses =
              [\<lparr> service_authenticated = True, status_access_token = ''T'',
                 status_client_id = ''I'', status_client_secret = ''S'' \<rparr>] \<rparr> [''youtube'', ''v3'', ''subscriptions''] [(''id'', ''s'')] (Priv
          \<lparr> default_apiroot = ''https://www.googleapis.com'', default_api_key = ''K'',
            default_user_agent = ''unity-scope-youtube'', default_accept = ''application/json'',
            styled_write = text_of \<rparr>)))))) =
      [(''Authorization'', ''Bearer T'')]
   \<and> query_parameters (uri (configuration (last (executing (del
          \<lparr> default_apiroot = ''https://www.googleapis.com'', default_api_key = ''K'',
            default_user_agent = ''unity-scope-youtube'', default_accept = ''application/json'',
            styled_write = text_of \<rparr>
          \<lparr> YOUTUBE_SCOPE_APIROOT = None, YOUTUBE_SCOPE_IGNORE_ACCOUNTS = False,
            get_service_statuses =
              [\<lparr> service_authenticated = True, status_access_token = ''T'',
                 status_client_id = ''I'', status_client_secret = ''S'' \<rparr>] \<rparr>
        [''youtube'', ''v3'', ''subscriptions''] [(''id'', ''s'')] (Priv
          \<lparr> default_apiroot = ''https://www.googleapis.com'', default_api_key = ''K'',
            default_user_agent = ''unity-scope-youtube'', default_accept = ''application/json'',
            styled_write = text_of \<rparr>)))))) =
      [(''id'', ''s'')]"
  using one_authentication_mechanism [of
      "last (executing (get
          \<lparr> default_apiroot = ''https://www.googleapis.com'', default_api_key = ''K'',
            default_user_agent = ''unity-scope-youtube'', default_accept = ''application/json'',
            styled_write = text_of \<rparr>
          \<lparr> YOUTUBE_SCOPE_APIROOT = None, YOUTUBE_SCOPE_IGNORE_ACCOUNTS = False,
            get_service_statuses = [] \<rparr> [''youtube'', ''v3'', ''search''] [(''part'', ''snippet'')] (Priv
          \<lparr> default_apiroot = ''https://www.googleapis.com'', default_api_key = ''K'',
            default_user_agent = ''unity-scope-youtube'', default_accept = ''application/json'',
            styled_write = text_of \<rparr>)))"
      "
          \<lparr> default_apiroot = ''https://www.googleapis.com'', default_api_key = ''K'',
            default_user_agent = ''unity-scope-youtube'', default_accept = ''application/json'',
            styled_write = text_of \<rparr>" "
          \<lparr> YOUTUBE_SCOPE_APIROOT = None, YOUTUBE_SCOPE_IGNORE_ACCOUNTS = False,
            get_service_statuses = [] \<rparr>" "[''youtube'', ''v3'', ''search'']" "[(''part'', ''snippet'')]" "Priv
          \<lparr> default_apiroot = ''https://www.googleapis.com'', default_api_key = ''K'',
            default_user_agent = ''unity-scope-youtube'', default_accept = ''application/json'',
            styled_write = text_of \<rparr>"]
    one_authentication_mechanism [of
      "last (executing (del
          \<lparr> default_apiroot = ''https://www.googleapis.com'', default_api_key = ''K'',
            default_user_agent = ''unity-scope-youtube'', default_accept = ''application/json'',
            styled_write = text_of \<rparr>
          \<lparr> YOUTUBE_SCOPE_APIROOT = None, YOUTUBE_SCOPE_IGNORE_ACCOUNTS = False,
            get_service_statuses =
              [\<lparr> service_authenticated = True, status_access_token = ''T'',
                 status_client_id = ''I'', status_client_secret = ''S'' \<rparr>] \<rparr> [''youtube'', ''v3'', ''subscriptions''] [(''id'', ''s'')] (Priv
          \<lparr> default_apiroot = ''https://www.googleapis.com'', default_api_key = ''K'',
            default_user_agent = ''unity-scope-youtube'', default_accept = ''application/json'',
            styled_write = text_of \<rparr>)))"
      "
          \<lparr> default_apiroot = ''https://www.googleapis.com'', default_api_key = ''K'',
            default_user_agent = ''unity-scope-youtube'', default_accept = ''application/json'',
            styled_write = text_of \<rparr>" "
          \<lparr> YOUTUBE_SCOPE_APIROOT = None, YOUTUBE_SCOPE_IGNORE_ACCOUNTS = False,
            get_service_statuses =
              [\<lparr> service_authenticated = True, status_access_token = ''T'',
                 status_client_id = ''I'', status_client_secret = ''S'' \<rparr>] \<rparr>" "[''youtube'', ''v3'', ''subscriptions'']" "[(''id'', ''s'')]" "Priv
          \<lparr> default_apiroot = ''https://www.googleapis.com'', default_api_key = ''K'',
            default_user_agent = ''unity-scope-youtube'', default_accept = ''application/json'',
            styled_write = text_of \<rparr>"]
  by (simp add: get_request del_request update_config_def Config_default_def Priv_def)

text \<open>
  Claim C8, as amended. If the configuration resolved for a call is authenticated,
  then its access token is the access token of the first authenticated service status
  that the account client reported, so it is non-empty whenever every authenticated
  status carries a non-empty token; and that access token, not the API key, is what
  the request of the call carries: a \<^verbatim>\<open>Bearer\<close> header, and no \<^verbatim>\<open>key\<close>
  parameter.
\<close>

theorem authenticated_uses_access_token:
  "authenticated (config (update_config p env c)) \<longrightarrow>
     (\<exists>s. List.find service_authenticated (get_service_statuses env) = Some s \<and>
          access_token (config (update_config p env c)) = status_access_token s) \<and>
     ((\<forall>s \<in> set (get_service_statuses env).
          service_authenticated s \<longrightarrow> status_access_token s \<noteq> []) \<longrightarrow>
        access_token (config (update_config p env c)) \<noteq> []) \<and>
     (rq \<in> {last (executing (get p env pth parameters c)),
             last (executing (post p env pth parameters postmsg content_type c)),
             last (executing (del p env pth parameters c))} \<longrightarrow>
        (''Authorization'', ''Bearer '' @ access_token (config (update_config p env c)))
          \<in> set (header (configuration rq)) \<and>
        query_parameters (uri (configuration rq)) = parameters)"
proof
  assume a: "authenticated (config (update_config p env c))"
  then obtain s where ni: "\<not> YOUTUBE_SCOPE_IGNORE_ACCOUNTS env"
    and f: "List.find service_authenticated (get_service_statuses env) = Some s"
    by (auto simp: update_config_authenticated)
  have t: "access_token (config (update_config p env c)) = status_access_token s"
    using ni f by (rule update_config_token)
  from f have "s \<in> set (get_service_statuses env)" "service_authenticated s"
    by (auto simp: find_Some_iff)
  then have ne: "(\<forall>s \<in> set (get_service_statuses env).
          service_authenticated s \<longrightarrow> status_access_token s \<noteq> []) \<longrightarrow>
        access_token (config (update_config p env c)) \<noteq> []"
    using t by auto
  have rqs: "rq \<in> {last (executing (get p env pth parameters c)),
             last (executing (post p env pth parameters postmsg content_type c)),
             last (executing (del p env pth parameters c))} \<longrightarrow>
        (''Authorization'', ''Bearer '' @ access_token (config (update_config p env c)))
          \<in> set (header (configuration rq)) \<and>
        query_parameters (uri (configuration rq)) = parameters"
    using a by (auto simp: get_request post_request del_request)
  from f t ne rqs show "(\<exists>s. List.find service_authenticated (get_service_statuses env) = Some s \<and>
          access_token (config (update_config p env c)) = status_access_token s) \<and>
     ((\<forall>s \<in> set (get_service_statuses env).
          service_authenticated s \<longrightarrow> status_access_token s \<noteq> []) \<longrightarrow>
        access_token (config (update_config p env c)) \<noteq> []) \<and>
     (rq \<in> {last (executing (get p env pth parameters c)),
             last (executing (post p env pth parameters postmsg content_type c)),
             last (executing (del p env pth parameters c))} \<longrightarrow>
        (''Authorization'', ''Bearer '' @ access_token (config (update_config p env c)))
          \<in> set (header (configuration rq)) \<and>
        query_parameters (uri (configuration rq)) = parameters)"
    by blast
qed

theorem authenticated_uses_access_token_witness:
  "authenticated (config (update_config
          \<lparr> default_apiroot = ''https://www.googleapis.com'', default_api_key = ''K'',
            default_user_agent = ''unity-scope-youtube'', default_accept = ''application/json'',
            styled_write = text_of \<rparr>
          \<lparr> YOUTUBE_SCOPE_APIROOT = None, YOUTUBE_SCOPE_IGNORE_ACCOUNTS = False,
            get_service_statuses =
              [\<lparr> service_authenticated = True, status_access_token = ''T'',
                 status_client_id = ''I'', status_client_secret = ''S'' \<rparr>] \<rparr> (Priv
          \<lparr> default_apiroot = ''https://www.googleapis.com'', default_api_key = ''K'',
            default_user_agent = ''unity-scope-youtube'', default_accept = ''application/json'',
            styled_write = text_of \<rparr>)))
   \<and> access_token (config (update_config
          \<lparr> default_apiroot = ''https://www.googleapis.com'', default_api_key = ''K'',
            default_user_agent = ''unity-scope-youtube'', default_accept = ''application/json'',
            styled_write = text_of \<rparr>
          \<lparr> YOUTUBE_SCOPE_APIROOT = None, YOUTUBE_SCOPE_IGNORE_ACCOUNTS = False,
            get_service_statuses =
              [\<lparr> service_authenticated = True, status_access_token = ''T'',
                 status_client_id = ''I'', status_client_secret = ''S'' \<rparr>] \<rparr> (Priv
          \<lparr> default_apiroot = ''https://www.googleapis.com'', default_api_key = ''K'',
            default_user_agent = ''unity-scope-youtube'', default_accept = ''application/json'',
            styled_write = text_of \<rparr>))) = ''T''
   \<and> (''Authorization'', ''Bearer T'') \<in> set (header (configuration (last (executing
        (get
          \<lparr> default_apiroot = ''https://www.googleapis.com'', default_api_key = ''K'',
            default_user_agent = ''unity-scope-youtube'', default_accept = ''application/json'',
            styled_write = text_of \<rparr>
          \<lparr> YOUTUBE_SCOPE_APIROOT = None, YOUTUBE_SCOPE_IGNORE_ACCOUNTS = False,
            get_service_statuses =
              [\<lparr> service_authenticated = True, status_access_token = ''T'',
                 status_client_id = ''I'', status_client_secret = ''S'' \<rparr>] \<rparr> [''youtube'', ''v3'', ''channels''] [(''mine'', ''true'')] (Priv
          \<lparr> default_apiroot = ''https://www.googleapis.com'', default_api_key = ''K'',
            default_user_agent = ''unity-scope-youtube'', default_accept = ''application/json'',
            styled_write = text_of \<rparr>))))))
   \<and> query_parameters (uri (configuration (last (executing
        (get
          \<lparr> default_apiroot = ''https://www.googleapis.com'', default_api_key = ''K'',
            default_user_agent = ''unity-scope-youtube'', default_accept = ''application/json'',
            styled_write = text_of \<rparr>
          \<lparr> YOUTUBE_SCOPE_APIROOT = None, YOUTUBE_SCOPE_IGNORE_ACCOUNTS = False,
            get_service_statuses =
              [\<lparr> service_authenticated = True, status_access_token = ''T'',
                 status_client_id = ''I'', status_client_secret = ''S'' \<rparr>] \<rparr> [''youtube'', ''v3'', ''channels''] [(''mine'', ''true'')] (Priv
          \<lparr> default_apiroot = ''https://www.googleapis.com'', default_api_key = ''K'',
            default_user_agent = ''unity-scope-youtube'', default_accept = ''application/json'',
            styled_write = text_of \<rparr>))))))
      = [(''mine'', ''true'')]"
  using authenticated_uses_access_token [of "
          \<lparr> default_apiroot = ''https://www.googleapis.com'', default_api_key = ''K'',
            default_user_agent = ''unity-scope-youtube'', default_accept = ''application/json'',
            styled_write = text_of \<rparr>" "
          \<lparr> YOUTUBE_SCOPE_APIROOT = None, YOUTUBE_SCOPE_IGNORE_ACCOUNTS = False,
            get_service_statuses =
              [\<lparr> service_authenticated = True, status_access_token = ''T'',
                 status_client_id = ''I'', status_client_secret = ''S'' \<rparr>] \<rparr>" "Priv
          \<lparr> default_apiroot = ''https://www.googleapis.com'', default_api_key = ''K'',
            default_user_agent = ''unity-scope-youtube'', default_accept = ''application/json'',
            styled_write = text_of \<rparr>"
      "last (executing (get
          \<lparr> default_apiroot = ''https://www.googleapis.com'', default_api_key = ''K'',
            default_user_agent = ''unity-scope-youtube'', default_accept = ''application/json'',
            styled_write = text_of \<rparr>
          \<lparr> YOUTUBE_SCOPE_APIROOT = None, YOUTUBE_SCOPE_IGNORE_ACCOUNTS = False,
            get_service_statuses =
              [\<lparr> service_authenticated = True, status_access_token = ''T'',
                 status_client_id = ''I'', status_client_secret = ''S'' \<rparr>] \<rparr> [''youtube'', ''v3'', ''channels''] [(''mine'', ''true'')] (Priv
          \<lparr> default_apiroot = ''https://www.googleapis.com'', default_api_key = ''K'',
            default_user_agent = ''unity-scope-youtube'', default_accept = ''application/json'',
            styled_write = text_of \<rparr>)))"
      "[''youtube'', ''v3'', ''channels'']" "[(''mine'', ''true'')]"]
  by (simp add: update_config_def Config_default_def Priv_def)

text \<open>
  Claim C8 as stated fails when the account client reports an authenticated status
  whose access token is empty: \<^verbatim>\<open>update_config\<close> copies the token without looking
  at it.
\<close>

theorem authenticated_with_empty_token_counterexample:
  "authenticated (config (update_config
          \<lparr> default_apiroot = ''https://www.googleapis.com'', default_api_key = ''K'',
            default_user_agent = ''unity-scope-youtube'', default_accept = ''application/json'',
            styled_write = text_of \<rparr>
          \<lparr> YOUTUBE_SCOPE_APIROOT = None, YOUTUBE_SCOPE_IGNORE_ACCOUNTS = False,
            get_service_statuses =
              [\<lparr> service_authenticated = True, status_access_token = [],
                 status_client_id = ''I'', status_client_secret = ''S'' \<rparr>] \<rparr> (Priv
          \<lparr> default_apiroot = ''https://www.googleapis.com'', default_api_key = ''K'',
            default_user_agent = ''unity-scope-youtube'', default_accept = ''application/json'',
            styled_write = text_of \<rparr>)))
   \<and> access_token (config (update_config
          \<lparr> default_apiroot = ''https://www.googleapis.com'', default_api_key = ''K'',
            default_user_agent = ''unity-scope-youtube'', default_accept = ''application/json'',
            styled_write = text_of \<rparr>
          \<lparr> YOUTUBE_SCOPE_APIROOT = None, YOUTUBE_SCOPE_IGNORE_ACCOUNTS = False,
            get_service_statuses =
              [\<lparr> service_authenticated = True, status_access_token = [],
                 status_client_id = ''I'', status_client_secret = ''S'' \<rparr>] \<rparr> (Priv
          \<lparr> default_apiroot = ''https://www.googleapis.com'', default_api_key = ''K'',
            default_user_agent = ''unity-scope-youtube'', default_accept = ''application/json'',
            styled_write = text_of \<rparr>))) = []"
  by (simp add: update_config_def Config_default_def Priv_def)

text \<open>
  Claim C9. For a \<^verbatim>\<open>department_id\<close> shorter than 13 characters
  \<^verbatim>\<open>subscription_channel_uploads\<close> throws \<^verbatim>\<open>std::out_of_range\<close> and leaves the
  client as it was, with no request submitted. For one of at least 13 characters it
  submits one request, whose \<^verbatim>\<open>id\<close> parameter is the whole \<^verbatim>\<open>department_id\<close> and
  not the substring from position 13.
\<close>

theorem uploads_substr:
  "(length department_id < 13 \<longrightarrow>
      subscription_channel_uploads p env department_id c = Inl OutOfRange \<and>
      after p (env, Subscription_channel_uploads department_id) c = c)
   \<and> (13 \<le> length department_id \<longrightarrow>
      (\<exists>c' rq. subscription_channel_uploads p env department_id c = Inr c' \<and>
         executing c' = executing c @ [rq] \<and>
         map_of (query_parameters (uri (configuration rq))) ''id'' = Some department_id \<and>
         map_of (query_parameters (uri (configuration rq))) ''id''
           \<noteq> Some (drop 13 department_id)))"
proof -
  have "drop 13 department_id \<noteq> department_id" if "13 \<le> length department_id"
  proof
    assume "drop 13 department_id = department_id"
    then have "length (drop 13 department_id) = length department_id" by simp
    with that show False by simp
  qed
  then show ?thesis
    by (auto simp: subscription_channel_uploads_def substr_def after_def async_get_def
          get_request)
qed

theorem uploads_substr_witness:
  "length ''UCabc'' < 13
   \<and> subscription_channel_uploads
          \<lparr> default_apiroot = ''https://www.googleapis.com'', default_api_key = ''K'',
            default_user_agent = ''unity-scope-youtube'', default_accept = ''application/json'',
            styled_write = text_of \<rparr>
          \<lparr> YOUTUBE_SCOPE_APIROOT = None, YOUTUBE_SCOPE_IGNORE_ACCOUNTS = False,
            get_service_statuses = [] \<rparr> ''UCabc'' (Priv
          \<lparr> default_apiroot = ''https://www.googleapis.com'', default_api_key = ''K'',
            default_user_agent = ''unity-scope-youtube'', default_accept = ''application/json'',
            styled_write = text_of \<rparr>) = Inl OutOfRange
   \<and> 13 \<le> length ''subscription-UCabc''
   \<and> (\<exists>c'. subscription_channel_uploads
          \<lparr> default_apiroot = ''https://www.googleapis.com'', default_api_key = ''K'',
            default_user_agent = ''unity-scope-youtube'', default_accept = ''application/json'',
            styled_write = text_of \<rparr>
          \<lparr> YOUTUBE_SCOPE_APIROOT = None, YOUTUBE_SCOPE_IGNORE_ACCOUNTS = False,
            get_service_statuses = [] \<rparr> ''subscription-UCabc'' (Priv
          \<lparr> default_apiroot = ''https://www.googleapis.com'', default_api_key = ''K'',
            default_user_agent = ''unity-scope-youtube'', default_accept = ''application/json'',
            styled_write = text_of \<rparr>) = Inr c'
        \<and> map_of (query_parameters (uri (configuration (last (executing c'))))) ''id''
            = Some ''subscription-UCabc'')"
  using uploads_substr [of "''UCabc''" "
          \<lparr> default_apiroot = ''https://www.googleapis.com'', default_api_key = ''K'',
            default_user_agent = ''unity-scope-youtube'', default_accept = ''application/json'',
            styled_write = text_of \<rparr>" "
          \<lparr> YOUTUBE_SCOPE_APIROOT = None, YOUTUBE_SCOPE_IGNORE_ACCOUNTS = False,
            get_service_statuses = [] \<rparr>" "Priv
          \<lparr> default_apiroot = ''https://www.googleapis.com'', default_api_key = ''K'',
            default_user_agent = ''unity-scope-youtube'', default_accept = ''application/json'',
            styled_write = text_of \<rparr>"]
    uploads_substr [of "''subscription-UCabc''" "
          \<lparr> default_apiroot = ''https://www.googleapis.com'', default_api_key = ''K'',
            default_user_agent = ''unity-scope-youtube'', default_accept = ''application/json'',
            styled_write = text_of \<rparr>" "
          \<lparr> YOUTUBE_SCOPE_APIROOT = None, YOUTUBE_SCOPE_IGNORE_ACCOUNTS = False,
            get_service_statuses = [] \<rparr>" "Priv
          \<lparr> default_apiroot = ''https://www.googleapis.com'', default_api_key = ''K'',
            default_user_agent = ''unity-scope-youtube'', default_accept = ''application/json'',
            styled_write = text_of \<rparr>"]
  by auto

text \<open>
  Claim C7. The progress callback of every handler is bound to the client and reads
  its flag, whichever request it fires for. In a history of calls on a new client that
  contains \<^verbatim>\<open>cancel()\<close>, the callback answers \<open>abort_operation\<close> after the
  history, whatever was called before and after the cancel; in a history without
  \<^verbatim>\<open>cancel()\<close> it answers \<open>continue_operation\<close>. A prior cancel blocks no
  submission: on a cancelled client every operation that submits a request still
  hands exactly one new request to the engine, and an operation throws after a cancel
  only if it throws without it.
\<close>

theorem cancel_aborts_progress:
  "progress_report (history p (before @ (env, Cancel) # later) (Priv p)) = abort_operation
   \<and> (Cancel \<notin> snd ` set calls \<longrightarrow>
        progress_report (history p calls (Priv p)) = continue_operation)
   \<and> (k \<noteq> Cancel \<and> k \<noteq> Authenticated \<longrightarrow>
        (\<forall>c'. perform p env k (cancel c) = Inr c' \<longrightarrow>
           (\<exists>rq. executing c' = executing c @ [rq])) \<and>
        ((\<exists>e. perform p env k (cancel c) = Inl e) \<longleftrightarrow> (\<exists>e. perform p env k c = Inl e)))"
proof -
  have "cancelled (after p (env, Cancel) (history p before (Priv p)))"
    by (simp add: after_def cancel_def)
  then have 1: "progress_report (history p (before @ (env, Cancel) # later) (Priv p))
      = abort_operation"
    by (simp add: history_append progress_report_def history_keeps_cancelled)
  have 2: "Cancel \<notin> snd ` set calls \<longrightarrow>
        progress_report (history p calls (Priv p)) = continue_operation"
    by (simp add: progress_report_def history_clear Priv_def)
  have 3: "\<exists>rq. executing c' = executing c @ [rq]"
    if "k \<noteq> Cancel" "k \<noteq> Authenticated" "perform p env k (cancel c) = Inr c'" for c'
    using perform_submits [OF that(3) that(1) that(2)] by (simp add: cancel_def)
  have 4: "(\<exists>e. perform p env k (cancel c) = Inl e) \<longleftrightarrow> (\<exists>e. perform p env k c = Inl e)"
    by (cases k) (simp_all add: subscription_channel_uploads_def split: sum.splits)
  from 1 2 3 4 show ?thesis by blast
qed

theorem cancel_aborts_progress_witness:
  "progress_report (history
          \<lparr> default_apiroot = ''https://www.googleapis.com'', default_api_key = ''K'',
            default_user_agent = ''unity-scope-youtube'', default_accept = ''application/json'',
            styled_write = text_of \<rparr>
      [(
          \<lparr> YOUTUBE_SCOPE_APIROOT = None, YOUTUBE_SCOPE_IGNORE_ACCOUNTS = False,
            get_service_statuses = [] \<rparr>, Videos ''v''), (
          \<lparr> YOUTUBE_SCOPE_APIROOT = None, YOUTUBE_SCOPE_IGNORE_ACCOUNTS = False,
            get_service_statuses = [] \<rparr>, Cancel), (
          \<lparr> YOUTUBE_SCOPE_APIROOT = None, YOUTUBE_SCOPE_IGNORE_ACCOUNTS = False,
            get_service_statuses = [] \<rparr>, Search ''q'' 5 [])] (Priv
          \<lparr> default_apiroot = ''https://www.googleapis.com'', default_api_key = ''K'',
            default_user_agent = ''unity-scope-youtube'', default_accept = ''application/json'',
            styled_write = text_of \<rparr>)) = abort_operation
   \<and> progress_report (history
          \<lparr> default_apiroot = ''https://www.googleapis.com'', default_api_key = ''K'',
            default_user_agent = ''unity-scope-youtube'', default_accept = ''application/json'',
            styled_write = text_of \<rparr> [(
          \<lparr> YOUTUBE_SCOPE_APIROOT = None, YOUTUBE_SCOPE_IGNORE_ACCOUNTS = False,
            get_service_statuses = [] \<rparr>, Videos ''v''), (
          \<lparr> YOUTUBE_SCOPE_APIROOT = None, YOUTUBE_SCOPE_IGNORE_ACCOUNTS = False,
            get_service_statuses = [] \<rparr>, Authenticated)] (Priv
          \<lparr> default_apiroot = ''https://www.googleapis.com'', default_api_key = ''K'',
            default_user_agent = ''unity-scope-youtube'', default_accept = ''application/json'',
            styled_write = text_of \<rparr>))
      = continue_operation
   \<and> length (executing (history
          \<lparr> default_apiroot = ''https://www.googleapis.com'', default_api_key = ''K'',
            default_user_agent = ''unity-scope-youtube'', default_accept = ''application/json'',
            styled_write = text_of \<rparr>
      [(
          \<lparr> YOUTUBE_SCOPE_APIROOT = None, YOUTUBE_SCOPE_IGNORE_ACCOUNTS = False,
            get_service_statuses = [] \<rparr>, Videos ''v''), (
          \<lparr> YOUTUBE_SCOPE_APIROOT = None, YOUTUBE_SCOPE_IGNORE_ACCOUNTS = False,
            get_service_statuses = [] \<rparr>, Cancel), (
          \<lparr> YOUTUBE_SCOPE_APIROOT = None, YOUTUBE_SCOPE_IGNORE_ACCOUNTS = False,
            get_service_statuses = [] \<rparr>, Search ''q'' 5 [])] (Priv
          \<lparr> default_apiroot = ''https://www.googleapis.com'', default_api_key = ''K'',
            default_user_agent = ''unity-scope-youtube'', default_accept = ''application/json'',
            styled_write = text_of \<rparr>))) = 2"
  using cancel_aborts_progress [of "
          \<lparr> default_apiroot = ''https://www.googleapis.com'', default_api_key = ''K'',
            default_user_agent = ''unity-scope-youtube'', default_accept = ''application/json'',
            styled_write = text_of \<rparr>" "[(
          \<lparr> YOUTUBE_SCOPE_APIROOT = None, YOUTUBE_SCOPE_IGNORE_ACCOUNTS = False,
            get_service_statuses = [] \<rparr>, Videos ''v'')]" "
          \<lparr> YOUTUBE_SCOPE_APIROOT = None, YOUTUBE_SCOPE_IGNORE_ACCOUNTS = False,
            get_service_statuses = [] \<rparr>" "[(
          \<lparr> YOUTUBE_SCOPE_APIROOT = None, YOUTUBE_SCOPE_IGNORE_ACCOUNTS = False,
            get_service_statuses = [] \<rparr>, Search ''q'' 5 [])]"
      "[(
          \<lparr> YOUTUBE_SCOPE_APIROOT = None, YOUTUBE_SCOPE_IGNORE_ACCOUNTS = False,
            get_service_statuses = [] \<rparr>, Videos ''v''), (
          \<lparr> YOUTUBE_SCOPE_APIROOT = None, YOUTUBE_SCOPE_IGNORE_ACCOUNTS = False,
            get_service_statuses = [] \<rparr>, Authenticated)]" "Search ''q'' 5 []"
      "history
          \<lparr> default_apiroot = ''https://www.googleapis.com'', default_api_key = ''K'',
            default_user_agent = ''unity-scope-youtube'', default_accept = ''application/json'',
            styled_write = text_of \<rparr> [(
          \<lparr> YOUTUBE_SCOPE_APIROOT = None, YOUTUBE_SCOPE_IGNORE_ACCOUNTS = False,
            get_service_statuses = [] \<rparr>, Videos ''v'')] (Priv
          \<lparr> default_apiroot = ''https://www.googleapis.com'', default_api_key = ''K'',
            default_user_agent = ''unity-scope-youtube'', default_accept = ''application/json'',
            styled_write = text_of \<rparr>)"]
  by (simp add: after_def op_defs get_request cancel_def Priv_def update_config_keeps
        Client_authenticated_def)

lemma engine_cancelled:
  assumes "cancelled c"
  shows "engine c es = Delivered r \<longleftrightarrow> (\<exists>rest. es = Arrives r # rest)"
proof (cases es)
  case Nil
  then show ?thesis by simp
next
  case (Cons e rest)
  with assms show ?thesis by (cases e) (auto simp: progress_report_def)
qed

text \<open>
  Claim C10. No public operation clears the flag: on a cancelled client, the client
  that any operation returns is cancelled, and so is the client after any history of
  calls. The progress callback then answers \<open>abort_operation\<close>; the engine aborts a
  request at its first progress tick, and delivers a response only if the response
  arrives before any tick.
\<close>

theorem cancelled_never_reset:
  "cancelled c \<longrightarrow>
     (\<forall>c'. perform p env k c = Inr c' \<longrightarrow> cancelled c') \<and>
     cancelled (history p ecs c) \<and>
     progress_report (history p ecs c) = abort_operation \<and>
     engine (history p ecs c) (Tick # es) = Aborted \<and>
     (\<forall>evs r. engine (history p ecs c) evs = Delivered r \<longleftrightarrow> (\<exists>rest. evs = Arrives r # rest))"
  by (auto simp: history_keeps_cancelled progress_report_def engine_cancelled
        dest: perform_keeps_cancelled)

theorem cancelled_never_reset_witness:
  "cancelled (cancel (Priv
          \<lparr> default_apiroot = ''https://www.googleapis.com'', default_api_key = ''K'',
            default_user_agent = ''unity-scope-youtube'', default_accept = ''application/json'',
            styled_write = text_of \<rparr>))
   \<and> cancelled (history
          \<lparr> default_apiroot = ''https://www.googleapis.com'', default_api_key = ''K'',
            default_user_agent = ''unity-scope-youtube'', default_accept = ''application/json'',
            styled_write = text_of \<rparr> [(
          \<lparr> YOUTUBE_SCOPE_APIROOT = None, YOUTUBE_SCOPE_IGNORE_ACCOUNTS = False,
            get_service_statuses = [] \<rparr>, Rate ''v'' True), (
          \<lparr> YOUTUBE_SCOPE_APIROOT = None, YOUTUBE_SCOPE_IGNORE_ACCOUNTS = False,
            get_service_statuses =
              [\<lparr> service_authenticated = True, status_access_token = ''T'',
                 status_client_id = ''I'', status_client_secret = ''S'' \<rparr>] \<rparr>, Authenticated)] (cancel (Priv
          \<lparr> default_apiroot = ''https://www.googleapis.com'', default_api_key = ''K'',
            default_user_agent = ''unity-scope-youtube'', default_accept = ''application/json'',
            styled_write = text_of \<rparr>)))
   \<and> engine (history
          \<lparr> default_apiroot = ''https://www.googleapis.com'', default_api_key = ''K'',
            default_user_agent = ''unity-scope-youtube'', default_accept = ''application/json'',
            styled_write = text_of \<rparr> [(
          \<lparr> YOUTUBE_SCOPE_APIROOT = None, YOUTUBE_SCOPE_IGNORE_ACCOUNTS = False,
            get_service_statuses = [] \<rparr>, Rate ''v'' True), (
          \<lparr> YOUTUBE_SCOPE_APIROOT = None, YOUTUBE_SCOPE_IGNORE_ACCOUNTS = False,
            get_service_statuses =
              [\<lparr> service_authenticated = True, status_access_token = ''T'',
                 status_client_id = ''I'', status_client_secret = ''S'' \<rparr>] \<rparr>, Authenticated)] (cancel (Priv
          \<lparr> default_apiroot = ''https://www.googleapis.com'', default_api_key = ''K'',
            default_user_agent = ''unity-scope-youtube'', default_accept = ''application/json'',
            styled_write = text_of \<rparr>)))
        [Tick, Arrives \<lparr> status = ok, body = [] \<rparr>] = Aborted"
  using cancelled_never_reset [where c = "cancel (Priv
          \<lparr> default_apiroot = ''https://www.googleapis.com'', default_api_key = ''K'',
            default_user_agent = ''unity-scope-youtube'', default_accept = ''application/json'',
            styled_write = text_of \<rparr>)" and p = "
          \<lparr> default_apiroot = ''https://www.googleapis.com'', default_api_key = ''K'',
            default_user_agent = ''unity-scope-youtube'', default_accept = ''application/json'',
            styled_write = text_of \<rparr>" and env = "
          \<lparr> YOUTUBE_SCOPE_APIROOT = None, YOUTUBE_SCOPE_IGNORE_ACCOUNTS = False,
            get_service_statuses = [] \<rparr>"
      and k = Cancel and ecs = "[(
          \<lparr> YOUTUBE_SCOPE_APIROOT = None, YOUTUBE_SCOPE_IGNORE_ACCOUNTS = False,
            get_service_statuses = [] \<rparr>, Rate ''v'' True), (
          \<lparr> YOUTUBE_SCOPE_APIROOT = None, YOUTUBE_SCOPE_IGNORE_ACCOUNTS = False,
            get_service_statuses =
              [\<lparr> service_authenticated = True, status_access_token = ''T'',
                 status_client_id = ''I'', status_client_secret = ''S'' \<rparr>] \<rparr>, Authenticated)]"
      and es = "[Arrives \<lparr> status = ok, body = [] \<rparr>]"]
  by (simp add: cancel_def)

end
